theory Spec2Isabelle
  imports Complex_Main "HOL-Library.Multiset"
begin

section \<open>Number model\<close>

text \<open>
  Python's unbounded \<^verbatim>\<open>int\<close> is \<^typ>\<open>int\<close>. A Python \<^verbatim>\<open>float\<close> is read as the number
  it stands for, a \<^typ>\<open>real\<close>. Two kinds of float expression are computed exactly,
  with the literals \<^verbatim>\<open>0.02\<close>, \<^verbatim>\<open>0.05\<close>, \<^verbatim>\<open>0.3\<close>, \<^verbatim>\<open>0.95\<close>, \<^verbatim>\<open>0.96\<close>,
  \<^verbatim>\<open>0.1\<close> read as the decimal fractions written: the product of an int with one of
  these literals that the code truncates with \<^verbatim>\<open>int()\<close>, and the quotient of two ints
  that the code compares with \<^verbatim>\<open>0.1\<close>. In binary64 each of these literals is off by a
  relative error of at most 2 to the power -54, too little to move such a product across
  an integer or such a quotient across the threshold as long as the counts stay below a
  million millions. Overflow, infinities and NaN are outside this model.
\<close>

datatype py_error = TypeError | ValueError | KeyError

text \<open>\<^verbatim>\<open>int(x)\<close> on a float: truncation toward zero.\<close>

definition py_trunc :: "real \<Rightarrow> int" where
  "py_trunc x = (if 0 \<le> x then \<lfloor>x\<rfloor> else \<lceil>x\<rceil>)"

text \<open>
  Where a float is the result of a division of two variables, of a product with such a
  quotient, or of \<^verbatim>\<open>round\<close>, its value depends on the binary64 rounding itself and
  need not be the exact quotient, product or decimal rounding. The model does not compute
  these: it takes the operations as a parameter \<open>fl\<close>, and every theorem below holds
  whatever they return. \<open>fl_div fl a b\<close> stands for \<^verbatim>\<open>a / b\<close> on two ints,
  \<open>fl_mul fl x y\<close> for \<^verbatim>\<open>x * y\<close> on floats, \<open>fl_round2 fl x\<close> for \<^verbatim>\<open>round(x, 2)\<close>
  and \<open>fl_mean fl xs\<close> for \<^verbatim>\<open>round(sum(xs) / len(xs), 2)\<close>.
\<close>

record float_ops =
  fl_div :: "int \<Rightarrow> int \<Rightarrow> real"
  fl_mul :: "real \<Rightarrow> real \<Rightarrow> real"
  fl_round2 :: "real \<Rightarrow> real"
  fl_mean :: "real list \<Rightarrow> real"

text \<open>
  A numeric field of a decoded JSON object: a number or \<^verbatim>\<open>null\<close>. \<^verbatim>\<open>int(None)\<close> and
  \<^verbatim>\<open>float(None)\<close> raise \<^verbatim>\<open>TypeError\<close>.
\<close>

datatype pynum = PNone | PInt int | PFloat real

fun py_int :: "pynum \<Rightarrow> py_error + int" where
  "py_int PNone = Inl TypeError"
| "py_int (PInt i) = Inr i"
| "py_int (PFloat x) = Inr (py_trunc x)"

fun py_float :: "pynum \<Rightarrow> py_error + real" where
  "py_float PNone = Inl TypeError"
| "py_float (PInt i) = Inr (of_int i)"
| "py_float (PFloat x) = Inr x"

text \<open>\<^verbatim>\<open>d.get(key, default)\<close>: an absent key is \<^term>\<open>None\<close>.\<close>

definition dict_get :: "'a option \<Rightarrow> 'a \<Rightarrow> 'a" where
  "dict_get field dflt = (case field of None \<Rightarrow> dflt | Some v \<Rightarrow> v)"


section \<open>Normalizer: \<^verbatim>\<open>src/data/processor.py\<close>\<close>

subsection \<open>Rates, risk level, marker color\<close>

definition calculate_infection_rate :: "float_ops \<Rightarrow> int \<Rightarrow> int \<Rightarrow> real" where
  "calculate_infection_rate fl cs pop =
     (if pop \<le> 0 then 0 else fl_round2 fl (fl_mul fl (fl_div fl cs pop) 100000))"

definition calculate_mortality_rate :: "float_ops \<Rightarrow> int \<Rightarrow> int \<Rightarrow> real" where
  "calculate_mortality_rate fl ds cs =
     (if cs \<le> 0 then 0 else fl_round2 fl (fl_mul fl (fl_div fl ds cs) 100))"

definition calculate_recovery_rate :: "float_ops \<Rightarrow> int \<Rightarrow> int \<Rightarrow> real" where
  "calculate_recovery_rate fl rs cs =
     (if cs \<le> 0 then 0 else fl_round2 fl (fl_mul fl (fl_div fl rs cs) 100))"

definition get_risk_level :: "real \<Rightarrow> string" where
  "get_risk_level infection_rate =
     (if infection_rate \<ge> 5000 then ''critical''
      else if infection_rate \<ge> 2000 then ''high''
      else if infection_rate \<ge> 500 then ''medium''
      else ''low'')"

definition get_marker_color :: "real \<Rightarrow> string" where
  "get_marker_color infection_rate =
     (if infection_rate \<ge> 5000 then ''#800026''
      else if infection_rate \<ge> 2000 then ''#BD0026''
      else if infection_rate \<ge> 1000 then ''#E31A1C''
      else if infection_rate \<ge> 500 then ''#FC4E2A''
      else if infection_rate \<ge> 100 then ''#FD8D3C''
      else ''#FEB24C'')"

subsection \<open>Records\<close>

text \<open>
  The dict handed to \<^verbatim>\<open>clean_city_data\<close>: every key may be absent. The dict it
  returns is \<open>location\<close>. The formatted display strings, \<^verbatim>\<open>display_name\<close> and
  \<^verbatim>\<open>last_updated\<close> are written once and read by nothing in the module; they are not
  carried.
\<close>

record raw_location =
  raw_name :: "string option"
  raw_country :: "string option"
  raw_latitude :: "pynum option"
  raw_lat :: "pynum option"
  raw_longitude :: "pynum option"
  raw_lon :: "pynum option"
  raw_population :: "pynum option"
  raw_type :: "string option"
  raw_cases :: "pynum option"
  raw_deaths :: "pynum option"
  raw_recovered :: "pynum option"
  raw_estimated :: "bool option"
  raw_estimation :: "pynum option"

record location =
  name :: string
  country :: string
  latitude :: real
  longitude :: real
  population :: int
  ltype :: string
  cases :: int
  deaths :: int
  recovered :: int
  estimated :: bool
  estimation :: pynum
  active :: int
  infection_rate :: real
  mortality_rate :: real
  recovery_rate :: real
  risk_level :: string
  marker_color :: string
  cases_per_100k :: real
  marker_size_multiplier :: real

subsection \<open>\<^verbatim>\<open>clean_city_data\<close>\<close>

text \<open>The active count of lines 111-124, from the converted fields.\<close>

definition clean_active :: "int \<Rightarrow> int \<Rightarrow> int \<Rightarrow> int \<Rightarrow> int" where
  "clean_active pop total_cases ds rs =
     (let raw_active = max 0 (total_cases - ds - rs);
          rate = (if total_cases > 0 then of_int rs / of_int total_cases else (0::real))
      in if rate < 0.1
         then min raw_active (py_trunc (of_int pop * 0.02))
         else raw_active)"

text \<open>The dict built once every conversion has succeeded.\<close>

definition build_cleaned ::
  "float_ops \<Rightarrow> raw_location \<Rightarrow> real \<Rightarrow> real \<Rightarrow> int \<Rightarrow> int \<Rightarrow> int \<Rightarrow> int \<Rightarrow> location" where
  "build_cleaned fl d lat lon pop cs ds rs =
     (let act = clean_active pop cs ds rs;
          ir = calculate_infection_rate fl act pop;
          ty = dict_get (raw_type d) ''city''
      in \<lparr> name = dict_get (raw_name d) ''Unknown Location'',
           country = dict_get (raw_country d) ''Unknown Country'',
           latitude = lat,
           longitude = lon,
           population = pop,
           ltype = ty,
           cases = cs,
           deaths = ds,
           recovered = rs,
           estimated = dict_get (raw_estimated d) False,
           estimation = dict_get (raw_estimation d) PNone,
           active = act,
           infection_rate = ir,
           mortality_rate = calculate_mortality_rate fl ds cs,
           recovery_rate = calculate_recovery_rate fl rs cs,
           risk_level = get_risk_level ir,
           marker_color = get_marker_color ir,
           cases_per_100k = ir,
           marker_size_multiplier =
             (if ty = ''country'' then 1.5 else if ty = ''state'' then 1.2 else 1.0) \<rparr>)"

text \<open>
  The conversions run in the order of the source; the first one that raises ends the
  call with its exception.
\<close>

definition clean_city_data :: "float_ops \<Rightarrow> raw_location \<Rightarrow> py_error + location" where
  "clean_city_data fl d =
     (case py_float (dict_get (raw_latitude d) (dict_get (raw_lat d) (PInt 0))) of
        Inl e \<Rightarrow> Inl e
      | Inr lat \<Rightarrow>
     (case py_float (dict_get (raw_longitude d) (dict_get (raw_lon d) (PInt 0))) of
        Inl e \<Rightarrow> Inl e
      | Inr lon \<Rightarrow>
     (case py_int (dict_get (raw_population d) (PInt 1)) of
        Inl e \<Rightarrow> Inl e
      | Inr pop \<Rightarrow>
     (case py_int (dict_get (raw_cases d) (PInt 0)) of
        Inl e \<Rightarrow> Inl e
      | Inr cs \<Rightarrow>
     (case py_int (dict_get (raw_deaths d) (PInt 0)) of
        Inl e \<Rightarrow> Inl e
      | Inr ds \<Rightarrow>
     (case py_int (dict_get (raw_recovered d) (PInt 0)) of
        Inl e \<Rightarrow> Inl e
      | Inr rs \<Rightarrow> Inr (build_cleaned fl d lat lon pop cs ds rs)))))))"

subsection \<open>\<^verbatim>\<open>validate_city_data\<close> and \<^verbatim>\<open>process_cities_data\<close>\<close>

text \<open>
  A cleaned dict holds every required key, and its coordinates are floats already, so
  only the range tests remain.
\<close>

definition validate_city_data :: "location \<Rightarrow> bool" where
  "validate_city_data c =
     (if \<not> (-90 \<le> latitude c \<and> latitude c \<le> 90) \<or> \<not> (-180 \<le> longitude c \<and> longitude c \<le> 180)
      then False
      else if population c \<le> 0 \<or> cases c < 0 then False
      else True)"

text \<open>The loop of lines 170-181: an exception or a failed validation skips the record.\<close>

fun collect_cities :: "float_ops \<Rightarrow> raw_location list \<Rightarrow> location list" where
  "collect_cities fl [] = []"
| "collect_cities fl (city_data # rest) =
     (case clean_city_data fl city_data of
        Inl e \<Rightarrow> collect_cities fl rest
      | Inr cleaned_city \<Rightarrow>
          if validate_city_data cleaned_city
          then cleaned_city # collect_cities fl rest
          else collect_cities fl rest)"

text \<open>
  \<^verbatim>\<open>list.sort(key=k, reverse=True)\<close>: the list is reversed, sorted stably in ascending
  key order, and reversed again.
\<close>

definition sort_reverse :: "('a \<Rightarrow> real) \<Rightarrow> 'a list \<Rightarrow> 'a list" where
  "sort_reverse k xs = rev (sort_key k (rev xs))"

definition process_cities_data :: "float_ops \<Rightarrow> raw_location list \<Rightarrow> location list" where
  "process_cities_data fl raw_cities_data =
     (if raw_cities_data = [] then []
      else sort_reverse infection_rate (collect_cities fl raw_cities_data))"

subsection \<open>\<^verbatim>\<open>get_statistics_summary\<close>\<close>

record statistics =
  total_cities :: nat
  total_cases :: int
  total_deaths :: int
  total_recovered :: int
  average_infection_rate :: real
  highest_infection_rate :: real
  lowest_infection_rate :: real
  risk_distribution :: "string \<rightharpoonup> nat"

definition empty_distribution :: "string \<rightharpoonup> nat" where
  "empty_distribution = [''low'' \<mapsto> 0, ''medium'' \<mapsto> 0, ''high'' \<mapsto> 0, ''critical'' \<mapsto> 0]"

text \<open>\<^verbatim>\<open>risk_distribution[risk_level] += 1\<close> raises \<^verbatim>\<open>KeyError\<close> on a key not in the dict.\<close>

fun tally_risk :: "(string \<rightharpoonup> nat) \<Rightarrow> location list \<Rightarrow> py_error + (string \<rightharpoonup> nat)" where
  "tally_risk rd [] = Inr rd"
| "tally_risk rd (city # rest) =
     (case rd (risk_level city) of
        None \<Rightarrow> Inl KeyError
      | Some n \<Rightarrow> tally_risk (rd(risk_level city \<mapsto> n + 1)) rest)"

definition get_statistics_summary :: "float_ops \<Rightarrow> location list \<Rightarrow> py_error + statistics" where
  "get_statistics_summary fl cities_data =
     (if cities_data = [] then
        Inr \<lparr> total_cities = 0, total_cases = 0, total_deaths = 0, total_recovered = 0,
              average_infection_rate = 0, highest_infection_rate = 0,
              lowest_infection_rate = 0, risk_distribution = empty_distribution \<rparr>
      else
        (let infection_rates = map infection_rate cities_data
         in case tally_risk empty_distribution cities_data of
              Inl e \<Rightarrow> Inl e
            | Inr rd \<Rightarrow>
                Inr \<lparr> total_cities = length cities_data,
                      total_cases = sum_list (map cases cities_data),
                      total_deaths = sum_list (map deaths cities_data),
                      total_recovered = sum_list (map recovered cities_data),
                      average_infection_rate = fl_mean fl infection_rates,
                      highest_infection_rate = Max (set infection_rates),
                      lowest_infection_rate = Min (set infection_rates),
                      risk_distribution = rd \<rparr>))"

text \<open>The sum of the four counters of a distribution, when all four keys are there.\<close>

definition distribution_total :: "(string \<rightharpoonup> nat) \<Rightarrow> nat option" where
  "distribution_total rd =
     (case (rd ''low'', rd ''medium'', rd ''high'', rd ''critical'') of
        (Some a, Some b, Some c, Some d) \<Rightarrow> Some (a + b + c + d)
      | _ \<Rightarrow> None)"

text \<open>
  What the specification says of \<^verbatim>\<open>processAll\<close> before the sort: each record is
  normalized, and the invalid ones are dropped.
\<close>

definition survivors :: "float_ops \<Rightarrow> raw_location list \<Rightarrow> location list" where
  "survivors fl raws =
     filter validate_city_data
       (concat (map (\<lambda>raw. case clean_city_data fl raw of Inl e \<Rightarrow> [] | Inr c \<Rightarrow> [c]) raws))"


subsection \<open>Example records\<close>

text \<open>
  Three raw records for \<^verbatim>\<open>process_cities_data\<close>. \<open>raw_deaths_exceed\<close> has more deaths
  than cases. \<open>raw_low_recovery\<close> has consistent counts, a recovery rate of 4 percent
  and 470 open cases in a population of 1000. \<open>raw_high_recovery\<close> has consistent counts
  and a recovery rate of 90 percent.
\<close>

definition raw_deaths_exceed :: raw_location where
  "raw_deaths_exceed = \<lparr> raw_name = Some ''Springfield'', raw_country = Some ''USA'',
     raw_latitude = Some (PFloat 39.8), raw_lat = None,
     raw_longitude = Some (PFloat (-89.6)), raw_lon = None,
     raw_population = Some (PInt 1000), raw_type = Some ''city'',
     raw_cases = Some (PInt 10), raw_deaths = Some (PInt 20), raw_recovered = Some (PInt 0),
     raw_estimated = None, raw_estimation = None \<rparr>"

definition raw_low_recovery :: raw_location where
  "raw_low_recovery = \<lparr> raw_name = Some ''Springfield'', raw_country = Some ''USA'',
     raw_latitude = Some (PFloat 39.8), raw_lat = None,
     raw_longitude = Some (PFloat (-89.6)), raw_lon = None,
     raw_population = Some (PInt 1000), raw_type = Some ''city'',
     raw_cases = Some (PInt 500), raw_deaths = Some (PInt 10), raw_recovered = Some (PInt 20),
     raw_estimated = None, raw_estimation = None \<rparr>"

definition raw_high_recovery :: raw_location where
  "raw_high_recovery = \<lparr> raw_name = Some ''Springfield'', raw_country = Some ''USA'',
     raw_latitude = Some (PFloat 39.8), raw_lat = None,
     raw_longitude = Some (PFloat (-89.6)), raw_lon = None,
     raw_population = Some (PInt 100000), raw_type = Some ''city'',
     raw_cases = Some (PInt 1000), raw_deaths = Some (PInt 50), raw_recovered = Some (PInt 900),
     raw_estimated = None, raw_estimation = None \<rparr>"

section \<open>Source fetcher: \<^verbatim>\<open>src/data/fetcher.py\<close>\<close>

subsection \<open>\<^verbatim>\<open>fetch_with_retry\<close>\<close>

text \<open>
  What one HTTP GET can come to. \<open>RequestFailed\<close> is any
  \<^verbatim>\<open>requests.exceptions.RequestException\<close>: a transport error, a timeout, a non-2xx
  status at \<^verbatim>\<open>raise_for_status\<close>, or a body that \<^verbatim>\<open>response.json()\<close> cannot decode.
  \<open>NonJson\<close> is a 2xx response whose content type is not JSON; \<open>Json p\<close> one that
  decodes to \<open>p\<close>. The endpoint is a function from the number of the attempt (from 0) to
  its outcome.
\<close>

datatype 'p response = RequestFailed | NonJson | Json 'p

datatype event = Get nat | Sleep real

text \<open>
  The loop \<^verbatim>\<open>for attempt in range(max_retries + 1)\<close>, from a given attempt on; the
  result comes with the trace of the GETs and sleeps done. \<^verbatim>\<open>time.sleep\<close> raises
  \<^verbatim>\<open>ValueError\<close> on a negative length; that exception is raised inside the handler and
  leaves the function.
\<close>

function fetch_loop ::
  "(nat \<Rightarrow> 'p response) \<Rightarrow> int \<Rightarrow> real \<Rightarrow> nat \<Rightarrow> (py_error + 'p option) \<times> event list" where
  "fetch_loop endpoint max_retries backoff_factor attempt =
     (if int attempt < max_retries + 1 then
        (case endpoint attempt of
           Json p \<Rightarrow> (Inr (Some p), [Get attempt])
         | NonJson \<Rightarrow> (Inr None, [Get attempt])
         | RequestFailed \<Rightarrow>
             if int attempt < max_retries then
               (let wait_time = backoff_factor * 2 ^ attempt in
                if wait_time < 0 then (Inl ValueError, [Get attempt])
                else (case fetch_loop endpoint max_retries backoff_factor (attempt + 1) of
                        (res, trace) \<Rightarrow> (res, Get attempt # Sleep wait_time # trace)))
             else (Inr None, [Get attempt]))
      else (Inr None, []))"
  by pat_completeness auto
termination
  by (relation "measure (\<lambda>(endpoint, max_retries, backoff_factor, attempt).
        nat (max_retries + 1) - attempt)") auto

definition fetch_with_retry ::
  "(nat \<Rightarrow> 'p response) \<Rightarrow> int \<Rightarrow> real \<Rightarrow> (py_error + 'p option) \<times> event list" where
  "fetch_with_retry endpoint max_retries backoff_factor =
     fetch_loop endpoint max_retries backoff_factor 0"

text \<open>The trace of a run whose attempts before \<open>n\<close> all fail and whose attempt \<open>n\<close> is the last.\<close>

definition retry_trace :: "real \<Rightarrow> nat \<Rightarrow> nat \<Rightarrow> event list" where
  "retry_trace backoff_factor start n =
     concat (map (\<lambda>a. [Get a, Sleep (backoff_factor * 2 ^ a)]) [start..<n]) @ [Get n]"

definition count_gets :: "event list \<Rightarrow> nat" where
  "count_gets trace = length (filter (\<lambda>e. case e of Get a \<Rightarrow> True | Sleep w \<Rightarrow> False) trace)"

definition sleeps :: "event list \<Rightarrow> real list" where
  "sleeps trace = concat (map (\<lambda>e. case e of Get a \<Rightarrow> [] | Sleep w \<Rightarrow> [w]) trace)"

subsection \<open>Upstream objects and the reference cities\<close>



record city =
  city_name :: string
  city_country :: string
  city_state :: "string option"
  city_lat :: real
  city_lon :: real
  city_population :: int


subsection \<open>\<^verbatim>\<open>_process_city_data\<close>\<close>






record corrected =
  k_cases :: int
  k_deaths :: int
  k_recovered :: int
  k_active :: int
  k_estimated :: bool
  k_estimation :: "int option"

text \<open>
  Lines 371-417, from \<^verbatim>\<open>total_cases\<close> (here \<open>n_cases\<close>), \<^verbatim>\<open>deaths\<close> and \<^verbatim>\<open>recovered\<close>
  as they stand after line 369: the recovery correction (371-393) and the two adjustments of
  \<^verbatim>\<open>recovered\<close> (395-412).
\<close>

definition city_recovery :: "int \<Rightarrow> int \<Rightarrow> int \<Rightarrow> int \<Rightarrow> corrected" where
  "city_recovery city_pop n_cases ds recovered0 =
     (let recovery_rate =
            (if n_cases > 0 then of_int recovered0 / of_int n_cases else (0::real));
          est = (recovery_rate < 0.1);
          estimated_recovered =
            min (py_trunc (of_int (n_cases - ds) * 0.96)) (py_trunc (of_int n_cases * 0.95));
          estimation1 = (if est then Some estimated_recovered else None);
          recovered1 = (if est then estimated_recovered else recovered0);
          exceeds = (ds + recovered1 > n_cases);
          recovered2 = (if exceeds then max 0 (n_cases - ds) else recovered1);
          estimation2 = (if exceeds \<and> est then Some recovered2 else estimation1);
          active_cases = max 0 (n_cases - ds - recovered2);
          max_realistic_active = py_trunc (of_int city_pop * 0.02);
          capped = (active_cases > max_realistic_active);
          active_final = (if capped then max_realistic_active else active_cases);
          recovered3 = (if capped then max 0 (n_cases - ds - active_final) else recovered2);
          estimation3 = (if capped \<and> est then Some recovered3 else estimation2)
      in \<lparr> k_cases = n_cases, k_deaths = ds, k_recovered = recovered3,
           k_active = active_final, k_estimated = est, k_estimation = estimation3 \<rparr>)"

text \<open>
  Lines 362-417, on the allocated counts: the floor and the cap of the cases and the cap
  of the deaths (362-368), then the lines above.
\<close>

definition city_correction :: "int \<Rightarrow> int \<Rightarrow> int \<Rightarrow> int \<Rightarrow> corrected" where
  "city_correction city_pop cases0 deaths0 recovered0 =
     (let cases1 = max cases0 100;
          total_cases = min cases1 (py_trunc (of_int city_pop * 0.3));
          ds = min deaths0 (py_trunc (of_int total_cases * 0.05))
      in city_recovery city_pop total_cases ds recovered0)"


subsection \<open>The recovery correction of \<^verbatim>\<open>_process_state_data\<close> and \<^verbatim>\<open>_process_country_data\<close>\<close>

text \<open>
  Lines 443-472 and, word for word again, 498-527, on the four counts read from the
  upstream object; the other keys of the returned dict do not depend on them.
\<close>

definition region_correction :: "int \<Rightarrow> int \<Rightarrow> int \<Rightarrow> int \<Rightarrow> corrected" where
  "region_correction n_cases ds recovered0 active0 =
     (let recovery_rate =
            (if n_cases > 0 then of_int recovered0 / of_int n_cases else (0::real))
      in if recovery_rate < 0.1 \<and> n_cases > 0 then
           (let e1 = py_trunc (of_int (n_cases - ds) * 0.96);
                e2 = min e1 (py_trunc (of_int n_cases * 0.95));
                estimated_recovered = max e2 0
            in \<lparr> k_cases = n_cases, k_deaths = ds, k_recovered = estimated_recovered,
                 k_active = max 0 (n_cases - ds - estimated_recovered),
                 k_estimated = True, k_estimation = Some estimated_recovered \<rparr>)
         else \<lparr> k_cases = n_cases, k_deaths = ds, k_recovered = recovered0,
                k_active = active0, k_estimated = False, k_estimation = None \<rparr>)"

subsection \<open>Example upstream data\<close>



section \<open>Cache: \<^verbatim>\<open>src/covidash/data/cache.py\<close>\<close>

subsection \<open>Timestamps, entries, files\<close>

text \<open>
  The value under a \<^verbatim>\<open>'timestamp'\<close> key. \<open>Iso t\<close> is a string that
  \<^verbatim>\<open>datetime.fromisoformat\<close> parses, \<open>t\<close> being the naive datetime it denotes, in
  microseconds; \<^verbatim>\<open>datetime.now().isoformat()\<close> at time \<open>t\<close> is \<open>Iso t\<close>. \<open>Malformed\<close> is
  any other value, on which line 36 raises.
\<close>

datatype timestamp = Iso int | Malformed

text \<open>
  A cache entry: a dict with a \<^verbatim>\<open>'timestamp'\<close> key and, unless \<open>ce_data\<close> is
  \<^term>\<open>None\<close>, a \<^verbatim>\<open>'data'\<close> key. The payload type \<open>'v\<close> stands for the Python values.
\<close>

record 'v cache_entry =
  ce_data :: "'v option"
  ce_timestamp :: timestamp

record metadata =
  m_timestamp :: timestamp
  m_size :: nat
  m_type :: string

text \<open>
  What a file is to lines 94-97: \<open>Object e\<close> decodes to a JSON object with the keys of
  \<open>e\<close> (other keys are not read); \<open>Invalid\<close> is a file on which these lines raise
  (unreadable, truncated, not JSON, not an object, no \<^verbatim>\<open>'timestamp'\<close> key).
\<close>

datatype 'v disk_file = Object "'v cache_entry" | Invalid

text \<open>
  What the cache does not decide: whether \<^verbatim>\<open>open(path, 'w')\<close> raises, whether
  \<^verbatim>\<open>json.dump(..., default=str)\<close> raises on a payload, what \<^verbatim>\<open>json.load\<close> gives back
  for a dumped payload, whether \<^verbatim>\<open>os.remove\<close> raises, and, of a payload, its truth
  value, \<^verbatim>\<open>len(str(data))\<close> and \<^verbatim>\<open>type(data).__name__\<close> (taken not to raise).
\<close>

record 'v env =
  open_fails :: "string \<Rightarrow> bool"
  dump_fails :: "'v \<Rightarrow> bool"
  reload :: "'v \<Rightarrow> 'v"
  remove_fails :: "string \<Rightarrow> bool"
  py_truthy :: "'v \<Rightarrow> bool"
  py_str_len :: "'v \<Rightarrow> nat"
  py_type_name :: "'v \<Rightarrow> string"

text \<open>The \<^verbatim>\<open>DataCache\<close> object, together with the files of the file system.\<close>

record 'v cache =
  cache_dir :: string
  max_age_hours :: int
  memory_cache :: "string \<rightharpoonup> 'v cache_entry"
  cache_metadata :: "string \<rightharpoonup> metadata"
  files :: "string \<rightharpoonup> 'v disk_file"

subsection \<open>Paths and validity\<close>

definition safe_key :: "string \<Rightarrow> string" where
  "safe_key key = map (\<lambda>ch. if ch = CHR ''/'' \<or> ch = CHR 0x5C then CHR ''_'' else ch) key"

text \<open>\<^verbatim>\<open>os.path.join\<close> (POSIX) on a directory and a name that does not start with a slash.\<close>

definition path_join :: "string \<Rightarrow> string \<Rightarrow> string" where
  "path_join dir fname =
     (if dir = [] \<or> last dir = CHR ''/'' then dir @ fname else dir @ ''/'' @ fname)"

definition get_cache_file_path :: "'v cache \<Rightarrow> string \<Rightarrow> string" where
  "get_cache_file_path c key = path_join (cache_dir c) (safe_key key @ ''.json'')"

definition get_metadata_file_path :: "'v cache \<Rightarrow> string \<Rightarrow> string" where
  "get_metadata_file_path c key = path_join (cache_dir c) (safe_key key @ ''_meta.json'')"

text \<open>
  \<^verbatim>\<open>_is_cache_valid\<close> at clock reading \<open>now\<close> (microseconds). The source compares
  the age in seconds, a float of microsecond resolution, with \<^verbatim>\<open>max_age_hours * 3600\<close>;
  the model compares the microseconds. Every exception is caught and gives \<^verbatim>\<open>False\<close>.
\<close>

definition is_cache_valid :: "'v cache \<Rightarrow> timestamp \<Rightarrow> int \<Rightarrow> bool" where
  "is_cache_valid c timestamp_str now =
     (case timestamp_str of
        Malformed \<Rightarrow> False
      | Iso cache_time \<Rightarrow> now - cache_time < max_age_hours c * 3600 * 1000000)"

subsection \<open>\<^verbatim>\<open>set\<close> and \<^verbatim>\<open>get\<close>\<close>

text \<open>
  \<^verbatim>\<open>DataCache.set\<close> at clock reading \<open>now\<close>: the two dicts are written first; an
  exception of the file writes is caught and turns the result into \<^verbatim>\<open>False\<close>. A dump
  that raises leaves the opened file behind, truncated.
\<close>

definition cache_set ::
  "'v env \<Rightarrow> 'v cache \<Rightarrow> string \<Rightarrow> 'v \<Rightarrow> int \<Rightarrow> bool \<times> 'v cache" where
  "cache_set env c key data now =
     (let timestamp = Iso now;
          c1 = c\<lparr> memory_cache :=
                    (memory_cache c)(key \<mapsto> \<lparr> ce_data = Some data, ce_timestamp = timestamp \<rparr>) \<rparr>;
          meta = \<lparr> m_timestamp = timestamp,
                   m_size = (if py_truthy env data then py_str_len env data else 0),
                   m_type = py_type_name env data \<rparr>;
          c2 = c1\<lparr> cache_metadata := (cache_metadata c1)(key \<mapsto> meta) \<rparr>;
          cache_file = get_cache_file_path c key;
          meta_file = get_metadata_file_path c key
      in if open_fails env cache_file then (False, c2)
         else if dump_fails env data then
           (False, c2\<lparr> files := (files c2)(cache_file \<mapsto> Invalid) \<rparr>)
         else
           (let c3 = c2\<lparr> files := (files c2)(cache_file \<mapsto>
                          Object \<lparr> ce_data = Some (reload env data), ce_timestamp = timestamp \<rparr>) \<rparr>
            in if open_fails env meta_file then (False, c3)
               else (True, c3\<lparr> files := (files c3)(meta_file \<mapsto>
                          Object \<lparr> ce_data = None, ce_timestamp = timestamp \<rparr>) \<rparr>)))"

text \<open>
  Lines 90-108 of \<^verbatim>\<open>DataCache.get\<close>, the persisted tier, at clock reading \<open>now\<close>. Every
  exception is caught at line 107 and ends in a miss: a \<^verbatim>\<open>KeyError\<close> of line 100 after
  the memory tier was repopulated, a failing \<^verbatim>\<open>os.remove\<close> before the next removal.
\<close>

definition file_fallback :: "'v env \<Rightarrow> 'v cache \<Rightarrow> string \<Rightarrow> int \<Rightarrow> 'v option \<times> 'v cache" where
  "file_fallback env c key now =
     (let cache_file = get_cache_file_path c key
      in case files c cache_file of
           None \<Rightarrow> (None, c)
         | Some Invalid \<Rightarrow> (None, c)
         | Some (Object cache_entry) \<Rightarrow>
             if is_cache_valid c (ce_timestamp cache_entry) now then
               (ce_data cache_entry,
                c\<lparr> memory_cache := (memory_cache c)(key \<mapsto> cache_entry) \<rparr>)
             else if remove_fails env cache_file then (None, c)
             else
               (let c1 = c\<lparr> files := (files c)(cache_file := None) \<rparr>;
                    meta_file = get_metadata_file_path c key
                in if files c1 meta_file = None then (None, c1)
                   else if remove_fails env meta_file then (None, c1)
                   else (None, c1\<lparr> files := (files c1)(meta_file := None) \<rparr>)))"

text \<open>
  \<^verbatim>\<open>DataCache.get\<close>. The clock is read once for the memory tier (\<open>now_memory\<close>) and once
  more for the persisted tier (\<open>now_file\<close>). The result \<open>Inr None\<close> is a miss,
  \<open>Inr (Some d)\<close> the payload \<open>d\<close>; a memory entry without \<^verbatim>\<open>'data'\<close> raises
  \<^verbatim>\<open>KeyError\<close> at line 85, outside the \<^verbatim>\<open>try\<close>.
\<close>

definition cache_get ::
  "'v env \<Rightarrow> 'v cache \<Rightarrow> string \<Rightarrow> bool \<Rightarrow> int \<Rightarrow> int \<Rightarrow> (py_error + 'v option) \<times> 'v cache" where
  "cache_get env c key use_file_fallback now_memory now_file =
     (let hit = (case memory_cache c key of
                   None \<Rightarrow> None
                 | Some cache_entry \<Rightarrow>
                     if is_cache_valid c (ce_timestamp cache_entry) now_memory
                     then Some cache_entry else None);
          c1 = (if memory_cache c key \<noteq> None \<and> hit = None
                then c\<lparr> memory_cache := (memory_cache c)(key := None) \<rparr> else c)
      in case hit of
           Some cache_entry \<Rightarrow>
             (case ce_data cache_entry of
                Some d \<Rightarrow> (Inr (Some d), c)
              | None \<Rightarrow> (Inl KeyError, c))
         | None \<Rightarrow>
             if use_file_fallback then
               (case file_fallback env c1 key now_file of (res, c2) \<Rightarrow> (Inr res, c2))
             else (Inr None, c1))"

subsection \<open>Example cache\<close>

text \<open>
  Payloads \<^verbatim>\<open>True\<close> and \<^verbatim>\<open>False\<close>, a file system on which nothing fails and one on
  which no file can be opened for writing, and an empty cache of the default age.
\<close>

definition reliable_env :: "bool env" where
  "reliable_env = \<lparr> open_fails = (\<lambda>p. False), dump_fails = (\<lambda>v. False), reload = (\<lambda>v. v),
     remove_fails = (\<lambda>p. False), py_truthy = (\<lambda>v. v),
     py_str_len = (\<lambda>v. if v then 4 else 5), py_type_name = (\<lambda>v. ''bool'') \<rparr>"

definition readonly_env :: "bool env" where
  "readonly_env = reliable_env \<lparr> open_fails := (\<lambda>p. True) \<rparr>"

definition empty_cache :: "bool cache" where
  "empty_cache = \<lparr> cache_dir = ''cache'', max_age_hours = 24, memory_cache = Map.empty,
     cache_metadata = Map.empty, files = Map.empty \<rparr>"

section \<open>Verification\<close>

subsection \<open>Risk level, cleaning, sorting\<close>


lemma risk_level_cases: "get_risk_level x \<in> {''low'', ''medium'', ''high'', ''critical''}"
  by (simp add: get_risk_level_def)

lemma risk_level_range: "range get_risk_level = {''low'', ''medium'', ''high'', ''critical''}"
proof (rule subset_antisym)
  show "range get_risk_level \<subseteq> {''low'', ''medium'', ''high'', ''critical''}"
    using risk_level_cases by blast
  have "get_risk_level 0 = ''low''" "get_risk_level 500 = ''medium''"
       "get_risk_level 2000 = ''high''" "get_risk_level 5000 = ''critical''"
    by (simp_all add: get_risk_level_def)
  then show "{''low'', ''medium'', ''high'', ''critical''} \<subseteq> range get_risk_level"
    by (metis (no_types, lifting) insert_subset empty_subsetI rangeI)
qed

lemma build_cleaned_risk_level:
  "risk_level (build_cleaned fl d lat lon pop cs ds rs)
     = get_risk_level (infection_rate (build_cleaned fl d lat lon pop cs ds rs))"
  by (simp add: build_cleaned_def Let_def)

lemma clean_city_data_build:
  "clean_city_data fl raw = Inr c \<Longrightarrow> \<exists>lat lon pop cs ds rs.
     c = build_cleaned fl raw lat lon pop cs ds rs
     \<and> py_int (dict_get (raw_population raw) (PInt 1)) = Inr pop
     \<and> py_int (dict_get (raw_cases raw) (PInt 0)) = Inr cs
     \<and> py_int (dict_get (raw_deaths raw) (PInt 0)) = Inr ds
     \<and> py_int (dict_get (raw_recovered raw) (PInt 0)) = Inr rs"
  unfolding clean_city_data_def by (auto split: sum.splits)

lemma clean_risk_level:
  "clean_city_data fl raw = Inr c \<Longrightarrow> risk_level c = get_risk_level (infection_rate c)"
  using clean_city_data_build build_cleaned_risk_level by blast

lemma collect_cities_survivors: "collect_cities fl raws = survivors fl raws"
  by (induction raws) (simp_all add: survivors_def split: sum.splits)

lemma collect_cities_origin:
  "c \<in> set (collect_cities fl raws) \<Longrightarrow>
   \<exists>raw \<in> set raws. clean_city_data fl raw = Inr c \<and> validate_city_data c"
proof (induction raws)
  case Nil
  then show ?case by simp
next
  case (Cons raw raws)
  show ?case
  proof (cases "clean_city_data fl raw")
    case (Inl e)
    with Cons show ?thesis by simp
  next
    case (Inr c')
    with Cons show ?thesis by (cases "validate_city_data c'") auto
  qed
qed

lemma set_sort_reverse: "set (sort_reverse k xs) = set xs"
  by (simp add: sort_reverse_def)

lemma mset_sort_reverse: "mset (sort_reverse k xs) = mset xs"
  by (simp add: sort_reverse_def)

lemma sort_reverse_descending: "sorted_wrt (\<lambda>a b. k a \<ge> k b) (sort_reverse k xs)"
proof -
  have "sorted (map k (sort_key k (rev xs)))" by (rule sorted_sort_key)
  then have "sorted_wrt (\<lambda>a b. k a \<le> k b) (sort_key k (rev xs))"
    by (simp add: sorted_map)
  then show ?thesis
    by (simp add: sort_reverse_def sorted_wrt_rev)
qed

lemma sort_reverse_stable:
  "filter (\<lambda>y. k y = v) (sort_reverse k xs) = filter (\<lambda>y. k y = v) xs"
proof -
  have "filter (\<lambda>y. k y = v) (sort_reverse k xs)
          = rev (filter (\<lambda>y. k y = v) (sort_key k (rev xs)))"
    by (simp add: sort_reverse_def rev_filter)
  also have "\<dots> = rev (filter (\<lambda>y. k y = v) (rev xs))"
    by (simp only: sort_key_stable)
  also have "\<dots> = filter (\<lambda>y. k y = v) xs"
    by (simp add: rev_filter)
  finally show ?thesis .
qed

lemma process_origin:
  "c \<in> set (process_cities_data fl raws) \<Longrightarrow>
   \<exists>raw \<in> set raws. clean_city_data fl raw = Inr c \<and> validate_city_data c"
proof (cases "raws = []")
  case True
  assume "c \<in> set (process_cities_data fl raws)"
  with True show ?thesis by (simp add: process_cities_data_def)
next
  case False
  assume "c \<in> set (process_cities_data fl raws)"
  with False have "c \<in> set (collect_cities fl raws)"
    by (simp add: process_cities_data_def set_sort_reverse)
  then show ?thesis by (rule collect_cities_origin)
qed

lemma process_risk_levels:
  assumes "c \<in> set (process_cities_data fl raws)"
  shows "risk_level c \<in> {''low'', ''medium'', ''high'', ''critical''}"
proof -
  from process_origin[OF assms] obtain raw where "clean_city_data fl raw = Inr c" by blast
  then have "risk_level c = get_risk_level (infection_rate c)" by (rule clean_risk_level)
  then show ?thesis using risk_level_cases[of "infection_rate c"] by simp
qed

lemma distribution_totalD:
  "distribution_total rd = Some n \<Longrightarrow>
   \<exists>a b c d. rd ''low'' = Some a \<and> rd ''medium'' = Some b \<and> rd ''high'' = Some c
     \<and> rd ''critical'' = Some d \<and> n = a + b + c + d"
  unfolding distribution_total_def by (simp split: option.splits)

lemma distribution_totalI:
  "rd ''low'' = Some a \<Longrightarrow> rd ''medium'' = Some b \<Longrightarrow> rd ''high'' = Some c \<Longrightarrow>
   rd ''critical'' = Some d \<Longrightarrow> distribution_total rd = Some (a + b + c + d)"
  unfolding distribution_total_def by simp

lemma distribution_bump:
  assumes t: "distribution_total rd = Some n"
    and k: "k \<in> {''low'', ''medium'', ''high'', ''critical''}"
  shows "\<exists>m. rd k = Some m \<and> distribution_total (rd(k \<mapsto> m + 1)) = Some (n + 1)"
proof -
  from distribution_totalD[OF t] obtain a b c d where
    v: "rd ''low'' = Some a" "rd ''medium'' = Some b" "rd ''high'' = Some c"
       "rd ''critical'' = Some d" and n: "n = a + b + c + d" by blast
  from k consider "k = ''low''" | "k = ''medium''" | "k = ''high''" | "k = ''critical''" by blast
  then show ?thesis
  proof cases
    case 1
    have "distribution_total (rd(''low'' \<mapsto> a + 1)) = Some ((a + 1) + b + c + d)"
      by (rule distribution_totalI) (simp_all add: v)
    with 1 v n show ?thesis by simp
  next
    case 2
    have "distribution_total (rd(''medium'' \<mapsto> b + 1)) = Some (a + (b + 1) + c + d)"
      by (rule distribution_totalI) (simp_all add: v)
    with 2 v n show ?thesis by simp
  next
    case 3
    have "distribution_total (rd(''high'' \<mapsto> c + 1)) = Some (a + b + (c + 1) + d)"
      by (rule distribution_totalI) (simp_all add: v)
    with 3 v n show ?thesis by simp
  next
    case 4
    have "distribution_total (rd(''critical'' \<mapsto> d + 1)) = Some (a + b + c + (d + 1))"
      by (rule distribution_totalI) (simp_all add: v)
    with 4 v n show ?thesis by simp
  qed
qed

lemma tally_risk_total:
  "distribution_total rd = Some n \<Longrightarrow>
   (\<And>c. c \<in> set cs \<Longrightarrow> risk_level c \<in> {''low'', ''medium'', ''high'', ''critical''}) \<Longrightarrow>
   \<exists>rd'. tally_risk rd cs = Inr rd' \<and> distribution_total rd' = Some (n + length cs)"
proof (induction cs arbitrary: rd n)
  case Nil
  then show ?case by simp
next
  case (Cons c cs)
  have k: "risk_level c \<in> {''low'', ''medium'', ''high'', ''critical''}"
    by (rule Cons.prems(2)) simp
  from distribution_bump[OF Cons.prems(1) k] obtain m where
    m: "rd (risk_level c) = Some m"
    and t: "distribution_total (rd(risk_level c \<mapsto> m + 1)) = Some (n + 1)" by blast
  have rest: "\<And>c'. c' \<in> set cs \<Longrightarrow> risk_level c' \<in> {''low'', ''medium'', ''high'', ''critical''}"
    by (rule Cons.prems(2)) simp
  from Cons.IH[OF t rest] obtain rd' where
    "tally_risk (rd(risk_level c \<mapsto> m + 1)) cs = Inr rd'"
    "distribution_total rd' = Some (n + 1 + length cs)" by blast
  then show ?case using m by simp
qed

lemma empty_distribution_total: "distribution_total empty_distribution = Some 0"
  unfolding distribution_total_def empty_distribution_def by simp

text \<open>
  Claim C10: the risk-level function is total with range exactly low, medium, high,
  critical; so on every list produced by \<^verbatim>\<open>process_cities_data\<close> the risk tally of
  \<^verbatim>\<open>get_statistics_summary\<close> raises no \<^verbatim>\<open>KeyError\<close>, and the four counts sum to the
  number of records.
\<close>

theorem risk_tally_total:
  "range get_risk_level = {''low'', ''medium'', ''high'', ''critical''} \<and>
   (\<exists>s. get_statistics_summary fl (process_cities_data fl raws) = Inr s \<and>
        distribution_total (risk_distribution s) = Some (length (process_cities_data fl raws)))"
proof -
  let ?out = "process_cities_data fl raws"
  have "\<exists>rd'. tally_risk empty_distribution ?out = Inr rd' \<and>
          distribution_total rd' = Some (0 + length ?out)"
    by (rule tally_risk_total[OF empty_distribution_total]) (rule process_risk_levels)
  then obtain rd' where t: "tally_risk empty_distribution ?out = Inr rd'"
    and d: "distribution_total rd' = Some (length ?out)" by auto
  have "\<exists>s. get_statistics_summary fl ?out = Inr s \<and>
        distribution_total (risk_distribution s) = Some (length ?out)"
  proof (cases "?out = []")
    case True
    then show ?thesis by (simp add: get_statistics_summary_def empty_distribution_total)
  next
    case False
    then show ?thesis using t d by (simp add: get_statistics_summary_def Let_def)
  qed
  with risk_level_range show ?thesis by blast
qed

text \<open>
  Claim C9: for every raw record list, \<^verbatim>\<open>process_cities_data\<close> returns a list (no
  exception leaves the batch) that holds exactly the normalized records that pass
  validation, sorted by infection rate in descending order; records of equal rate keep
  their input order.
\<close>

theorem process_all_sorted:
  "sorted_wrt (\<lambda>a b. infection_rate a \<ge> infection_rate b) (process_cities_data fl raws) \<and>
   mset (process_cities_data fl raws) = mset (survivors fl raws) \<and>
   filter (\<lambda>c. infection_rate c = v) (process_cities_data fl raws)
     = filter (\<lambda>c. infection_rate c = v) (survivors fl raws)"
proof (cases "raws = []")
  case True
  then show ?thesis by (simp add: process_cities_data_def survivors_def)
next
  case False
  then have "process_cities_data fl raws = sort_reverse infection_rate (survivors fl raws)"
    by (simp add: process_cities_data_def collect_cities_survivors)
  then show ?thesis
    by (simp add: sort_reverse_descending mset_sort_reverse sort_reverse_stable)
qed

subsection \<open>Counts of a processed record\<close>

lemma process_singleton:
  "clean_city_data fl raw = Inr c \<Longrightarrow> validate_city_data c \<Longrightarrow> process_cities_data fl [raw] = [c]"
  by (simp add: process_cities_data_def sort_reverse_def)

lemma build_cleaned_sel:
  "population (build_cleaned fl d lat lon pop cs ds rs) = pop"
  "cases (build_cleaned fl d lat lon pop cs ds rs) = cs"
  "deaths (build_cleaned fl d lat lon pop cs ds rs) = ds"
  "recovered (build_cleaned fl d lat lon pop cs ds rs) = rs"
  "latitude (build_cleaned fl d lat lon pop cs ds rs) = lat"
  "longitude (build_cleaned fl d lat lon pop cs ds rs) = lon"
  "active (build_cleaned fl d lat lon pop cs ds rs) = clean_active pop cs ds rs"
  "infection_rate (build_cleaned fl d lat lon pop cs ds rs)
     = calculate_infection_rate fl (clean_active pop cs ds rs) pop"
  "marker_color (build_cleaned fl d lat lon pop cs ds rs)
     = get_marker_color (calculate_infection_rate fl (clean_active pop cs ds rs) pop)"
  by (simp_all add: build_cleaned_def Let_def)

lemma clean_deaths_exceed:
  "clean_city_data fl raw_deaths_exceed
     = Inr (build_cleaned fl raw_deaths_exceed 39.8 (-89.6) 1000 10 20 0)"
  by (simp add: clean_city_data_def raw_deaths_exceed_def dict_get_def)

lemma process_deaths_exceed:
  "process_cities_data fl [raw_deaths_exceed]
     = [build_cleaned fl raw_deaths_exceed 39.8 (-89.6) 1000 10 20 0]"
  by (rule process_singleton[OF clean_deaths_exceed])
     (simp add: validate_city_data_def build_cleaned_sel)

lemma clean_low_recovery:
  "clean_city_data fl raw_low_recovery
     = Inr (build_cleaned fl raw_low_recovery 39.8 (-89.6) 1000 500 10 20)"
  by (simp add: clean_city_data_def raw_low_recovery_def dict_get_def)

lemma process_low_recovery:
  "process_cities_data fl [raw_low_recovery]
     = [build_cleaned fl raw_low_recovery 39.8 (-89.6) 1000 500 10 20]"
  by (rule process_singleton[OF clean_low_recovery])
     (simp add: validate_city_data_def build_cleaned_sel)

lemma clean_high_recovery:
  "clean_city_data fl raw_high_recovery
     = Inr (build_cleaned fl raw_high_recovery 39.8 (-89.6) 100000 1000 50 900)"
  by (simp add: clean_city_data_def raw_high_recovery_def dict_get_def)

lemma process_high_recovery:
  "process_cities_data fl [raw_high_recovery]
     = [build_cleaned fl raw_high_recovery 39.8 (-89.6) 100000 1000 50 900]"
  by (rule process_singleton[OF clean_high_recovery])
     (simp add: validate_city_data_def build_cleaned_sel)

lemma clean_active_low_recovery: "clean_active 1000 500 10 20 = 20"
  by (simp add: clean_active_def Let_def py_trunc_def)

lemma clean_active_high_recovery: "clean_active 100000 1000 50 900 = 50"
  by (simp add: clean_active_def Let_def)

lemma clean_active_deaths_exceed: "clean_active 1000 10 20 0 = 0"
  by (simp add: clean_active_def Let_def py_trunc_def)

text \<open>
  Claim C1, as stated: every record of a processed dataset has
  \<open>0 \<le> deaths + recovered \<le> cases\<close> and \<open>active = max 0 (cases - deaths - recovered)\<close>.
  Each half fails on its own input, whatever the rounding of the rates.

  On \<open>raw_deaths_exceed\<close> (cases 10, deaths 20, recovered 0, population 1000) the record
  passes validation with its three counts unchanged, so deaths + recovered = 20 exceeds
  cases = 10: \<^verbatim>\<open>clean_city_data\<close> copies the counts (lines 104-106) and
  \<^verbatim>\<open>validate_city_data\<close> tests only coordinates, population and the sign of cases
  (lines 205-209). The active identity still holds there (0 on both sides).

  On \<open>raw_low_recovery\<close> (cases 500, deaths 10, recovered 20, population 1000), whose
  counts are consistent, the identity fails: the recovery rate 20 / 500 is below 0.1, so
  line 119 takes \<^verbatim>\<open>min(raw_active, int(population * 0.02))\<close> = min(470, 20) = 20, while
  \<open>max 0 (500 - 10 - 20)\<close> is 470. The code does this on purpose: the value is named
  \<^verbatim>\<open>conservative_active\<close>, line 119 is commented "Cap at 2% of population", line 121
  prints "Used conservative active: ... (raw was ...)", and the other branch is commented
  "Recovery data looks realistic, use it". Unlike the fetcher (lines 406-412), the
  normalizer caps the active count and leaves recovered as it came.
\<close>

theorem processed_counts_counterexample:
  "\<forall>fl.
     map cases (process_cities_data fl [raw_deaths_exceed]) = [10] \<and>
     map deaths (process_cities_data fl [raw_deaths_exceed]) = [20] \<and>
     map recovered (process_cities_data fl [raw_deaths_exceed]) = [0] \<and>
     map active (process_cities_data fl [raw_deaths_exceed]) = [0] \<and>
     \<not> (20 + 0 \<le> (10::int)) \<and>
     map cases (process_cities_data fl [raw_low_recovery]) = [500] \<and>
     map deaths (process_cities_data fl [raw_low_recovery]) = [10] \<and>
     map recovered (process_cities_data fl [raw_low_recovery]) = [20] \<and>
     map active (process_cities_data fl [raw_low_recovery]) = [20] \<and>
     10 + 20 \<le> (500::int) \<and>
     \<not> (20 = max 0 (500 - 10 - 20 :: int))"
  by (simp add: process_deaths_exceed process_low_recovery build_cleaned_sel
        clean_active_low_recovery clean_active_deaths_exceed)

lemma py_trunc_nonneg: "0 \<le> x \<Longrightarrow> 0 \<le> py_trunc x"
  by (simp add: py_trunc_def)

lemma clean_active_cases:
  "clean_active pop cs ds rs =
     (if cs > 0 \<and> of_int rs / of_int cs \<ge> (0.1::real)
      then max 0 (cs - ds - rs)
      else min (max 0 (cs - ds - rs)) (py_trunc (of_int pop * 0.02)))"
  by (simp add: clean_active_def Let_def not_less)

lemma clean_active_bounds:
  "0 < pop \<Longrightarrow> 0 \<le> clean_active pop cs ds rs \<and> clean_active pop cs ds rs \<le> max 0 (cs - ds - rs)"
proof -
  assume "0 < pop"
  then have "0 \<le> py_trunc (of_int pop * 0.02)" by (intro py_trunc_nonneg) simp
  then show ?thesis unfolding clean_active_cases by auto
qed

text \<open>
  Claim C1, amended: every record of a processed dataset has a positive population and
  non-negative cases; its cases, deaths and recovered are those of a raw record of the
  input, converted by \<^verbatim>\<open>int\<close> and otherwise unchanged (so
  \<open>0 \<le> deaths + recovered \<le> cases\<close> holds exactly when the raw counts satisfy it); its
  active count lies between 0 and \<open>max 0 (cases - deaths - recovered)\<close>, equals that
  maximum when cases are positive and recovered / cases is at least 0.1, and is that
  maximum capped at \<^verbatim>\<open>int(population * 0.02)\<close> otherwise.
\<close>

theorem processed_record_counts:
  assumes "r \<in> set (process_cities_data fl raws)"
  shows "0 < population r \<and> 0 \<le> cases r \<and> 0 \<le> active r
     \<and> active r \<le> max 0 (cases r - deaths r - recovered r)
     \<and> active r =
         (if cases r > 0 \<and> of_int (recovered r) / of_int (cases r) \<ge> (0.1::real)
          then max 0 (cases r - deaths r - recovered r)
          else min (max 0 (cases r - deaths r - recovered r))
                   (py_trunc (of_int (population r) * 0.02)))
     \<and> (\<exists>raw \<in> set raws.
           py_int (dict_get (raw_cases raw) (PInt 0)) = Inr (cases r)
         \<and> py_int (dict_get (raw_deaths raw) (PInt 0)) = Inr (deaths r)
         \<and> py_int (dict_get (raw_recovered raw) (PInt 0)) = Inr (recovered r))"
proof -
  from process_origin[OF assms] obtain raw where raw: "raw \<in> set raws"
    and cl: "clean_city_data fl raw = Inr r" and v: "validate_city_data r" by blast
  from clean_city_data_build[OF cl] obtain lat lon pop cs ds rs where
    r: "r = build_cleaned fl raw lat lon pop cs ds rs"
    and conv: "py_int (dict_get (raw_cases raw) (PInt 0)) = Inr cs"
      "py_int (dict_get (raw_deaths raw) (PInt 0)) = Inr ds"
      "py_int (dict_get (raw_recovered raw) (PInt 0)) = Inr rs" by blast
  have sel: "population r = pop" "cases r = cs" "deaths r = ds" "recovered r = rs"
    "active r = clean_active pop cs ds rs"
    by (simp_all add: r build_cleaned_sel)
  from v have pos: "0 < population r" and nn: "0 \<le> cases r"
    by (auto simp: validate_city_data_def split: if_splits)
  from pos have b: "0 \<le> clean_active pop cs ds rs \<and> clean_active pop cs ds rs \<le> max 0 (cs - ds - rs)"
    unfolding sel by (rule clean_active_bounds)
  have a: "active r =
         (if cases r > 0 \<and> of_int (recovered r) / of_int (cases r) \<ge> (0.1::real)
          then max 0 (cases r - deaths r - recovered r)
          else min (max 0 (cases r - deaths r - recovered r))
                   (py_trunc (of_int (population r) * 0.02)))"
    unfolding sel by (rule clean_active_cases)
  have e: "\<exists>raw \<in> set raws.
           py_int (dict_get (raw_cases raw) (PInt 0)) = Inr (cases r)
         \<and> py_int (dict_get (raw_deaths raw) (PInt 0)) = Inr (deaths r)
         \<and> py_int (dict_get (raw_recovered raw) (PInt 0)) = Inr (recovered r)"
    using raw conv unfolding sel by blast
  from pos nn b a e show ?thesis unfolding sel by blast
qed

theorem processed_record_counts_witness:
  "\<forall>fl.
     build_cleaned fl raw_high_recovery 39.8 (-89.6) 100000 1000 50 900
       \<in> set (process_cities_data fl [raw_high_recovery])
   \<and> active (build_cleaned fl raw_high_recovery 39.8 (-89.6) 100000 1000 50 900) = 50
   \<and> max 0 (1000 - 50 - 900) = (50::int)
   \<and> 0 < population (build_cleaned fl raw_high_recovery 39.8 (-89.6) 100000 1000 50 900)"
proof
  fix fl
  have m: "build_cleaned fl raw_high_recovery 39.8 (-89.6) 100000 1000 50 900
             \<in> set (process_cities_data fl [raw_high_recovery])"
    by (simp add: process_high_recovery)
  from processed_record_counts[OF m]
  show "build_cleaned fl raw_high_recovery 39.8 (-89.6) 100000 1000 50 900
       \<in> set (process_cities_data fl [raw_high_recovery])
   \<and> active (build_cleaned fl raw_high_recovery 39.8 (-89.6) 100000 1000 50 900) = 50
   \<and> max 0 (1000 - 50 - 900) = (50::int)
   \<and> 0 < population (build_cleaned fl raw_high_recovery 39.8 (-89.6) 100000 1000 50 900)"
    using m by (simp add: build_cleaned_sel)
qed

subsection \<open>Marker color\<close>

lemma marker_color_cases:
  "get_marker_color x \<in> {''#800026'', ''#BD0026'', ''#E31A1C'', ''#FC4E2A'', ''#FD8D3C'', ''#FEB24C''}"
  by (simp add: get_marker_color_def)

lemma marker_color_bands:
  "get_marker_color x = ''#800026'' \<longleftrightarrow> 5000 \<le> x"
  "get_marker_color x = ''#BD0026'' \<longleftrightarrow> 2000 \<le> x \<and> x < 5000"
  "get_marker_color x = ''#E31A1C'' \<longleftrightarrow> 1000 \<le> x \<and> x < 2000"
  "get_marker_color x = ''#FC4E2A'' \<longleftrightarrow> 500 \<le> x \<and> x < 1000"
  "get_marker_color x = ''#FD8D3C'' \<longleftrightarrow> 100 \<le> x \<and> x < 500"
  "get_marker_color x = ''#FEB24C'' \<longleftrightarrow> x < 100"
  by (auto simp add: get_marker_color_def)

lemma marker_color_range:
  "range get_marker_color = {''#800026'', ''#BD0026'', ''#E31A1C'', ''#FC4E2A'', ''#FD8D3C'', ''#FEB24C''}"
proof (rule subset_antisym)
  show "range get_marker_color
          \<subseteq> {''#800026'', ''#BD0026'', ''#E31A1C'', ''#FC4E2A'', ''#FD8D3C'', ''#FEB24C''}"
    using marker_color_cases by blast
  have "get_marker_color 5000 = ''#800026''" "get_marker_color 2000 = ''#BD0026''"
       "get_marker_color 1000 = ''#E31A1C''" "get_marker_color 500 = ''#FC4E2A''"
       "get_marker_color 100 = ''#FD8D3C''" "get_marker_color 0 = ''#FEB24C''"
    by (simp_all add: get_marker_color_def)
  then show "{''#800026'', ''#BD0026'', ''#E31A1C'', ''#FC4E2A'', ''#FD8D3C'', ''#FEB24C''}
          \<subseteq> range get_marker_color"
    by (metis (no_types, lifting) insert_subset empty_subsetI rangeI)
qed

lemma build_cleaned_marker_color:
  "marker_color (build_cleaned fl d lat lon pop cs ds rs)
     = get_marker_color (infection_rate (build_cleaned fl d lat lon pop cs ds rs))"
  by (simp add: build_cleaned_def Let_def)

lemma clean_marker_color:
  "clean_city_data fl raw = Inr c \<Longrightarrow> marker_color c = get_marker_color (infection_rate c)"
  using clean_city_data_build build_cleaned_marker_color by blast

lemma process_marker_color:
  assumes "c \<in> set (process_cities_data fl raws)"
  shows "marker_color c = get_marker_color (infection_rate c)"
proof -
  from process_origin[OF assms] obtain raw where "clean_city_data fl raw = Inr c" by blast
  then show ?thesis by (rule clean_marker_color)
qed

text \<open>
  Claim C8, as stated: the marker-color function takes at most five distinct values.
  It fails: the six rates 0, 100, 500, 1000, 2000 and 5000 get six different colors.
\<close>

theorem marker_color_five_bands_counterexample:
  "card (get_marker_color ` {0, 100, 500, 1000, 2000, 5000}) = 6"
  by (simp add: get_marker_color_def)

text \<open>
  Claim C8, amended: the marker color assigned to every normalized record is the value of
  the marker-color function at the record's infection rate, and that function draws from
  a fixed six-band palette: \<open>#800026\<close> from 5000 up, \<open>#BD0026\<close> from 2000 to below 5000,
  \<open>#E31A1C\<close> from 1000 to below 2000, \<open>#FC4E2A\<close> from 500 to below 1000, \<open>#FD8D3C\<close>
  from 100 to below 500 and \<open>#FEB24C\<close> below 100; it takes exactly these six values
  over all inputs.
\<close>

theorem marker_color_six_bands:
  "(get_marker_color x = ''#800026'' \<longleftrightarrow> 5000 \<le> x)
   \<and> (get_marker_color x = ''#BD0026'' \<longleftrightarrow> 2000 \<le> x \<and> x < 5000)
   \<and> (get_marker_color x = ''#E31A1C'' \<longleftrightarrow> 1000 \<le> x \<and> x < 2000)
   \<and> (get_marker_color x = ''#FC4E2A'' \<longleftrightarrow> 500 \<le> x \<and> x < 1000)
   \<and> (get_marker_color x = ''#FD8D3C'' \<longleftrightarrow> 100 \<le> x \<and> x < 500)
   \<and> (get_marker_color x = ''#FEB24C'' \<longleftrightarrow> x < 100)
   \<and> range get_marker_color
        = {''#800026'', ''#BD0026'', ''#E31A1C'', ''#FC4E2A'', ''#FD8D3C'', ''#FEB24C''}
   \<and> card (range get_marker_color) = 6
   \<and> (\<forall>r \<in> set (process_cities_data fl raws).
         marker_color r = get_marker_color (infection_rate r))"
proof -
  have "card {''#800026'', ''#BD0026'', ''#E31A1C'', ''#FC4E2A'', ''#FD8D3C'', ''#FEB24C''} = 6"
    by simp
  then have c: "card (range get_marker_color) = 6" by (simp only: marker_color_range)
  have p: "\<forall>r \<in> set (process_cities_data fl raws).
         marker_color r = get_marker_color (infection_rate r)"
    using process_marker_color by blast
  from marker_color_bands[of x] marker_color_range c p show ?thesis by blast
qed

theorem marker_color_six_bands_witness:
  "\<forall>fl.
     map marker_color (process_cities_data fl [raw_high_recovery])
       = [get_marker_color (fl_round2 fl (fl_mul fl (fl_div fl 50 100000) 100000))]
   \<and> get_marker_color 50 = ''#FEB24C''
   \<and> get_marker_color 2000 = ''#BD0026''"
proof
  fix fl
  have m: "build_cleaned fl raw_high_recovery 39.8 (-89.6) 100000 1000 50 900
             \<in> set (process_cities_data fl [raw_high_recovery])"
    by (simp add: process_high_recovery)
  from marker_color_six_bands[of 50 fl "[raw_high_recovery]"]
       marker_color_six_bands[of 2000 fl "[raw_high_recovery]"] m
  have "marker_color (build_cleaned fl raw_high_recovery 39.8 (-89.6) 100000 1000 50 900)
          = get_marker_color (infection_rate
              (build_cleaned fl raw_high_recovery 39.8 (-89.6) 100000 1000 50 900))"
    and b: "get_marker_color 50 = ''#FEB24C''" "get_marker_color 2000 = ''#BD0026''"
    by simp_all
  then show "map marker_color (process_cities_data fl [raw_high_recovery])
       = [get_marker_color (fl_round2 fl (fl_mul fl (fl_div fl 50 100000) 100000))]
   \<and> get_marker_color 50 = ''#FEB24C''
   \<and> get_marker_color 2000 = ''#BD0026''"
    by (simp add: process_high_recovery build_cleaned_sel clean_active_high_recovery
          calculate_infection_rate_def)
qed

subsection \<open>Retries of \<^verbatim>\<open>fetch_with_retry\<close>\<close>

declare fetch_loop.simps [simp del]

lemma retry_trace_last: "retry_trace b n n = [Get n]"
  by (simp add: retry_trace_def)

lemma retry_trace_step:
  "a < n \<Longrightarrow> retry_trace b a n = Get a # Sleep (b * 2 ^ a) # retry_trace b (Suc a) n"
  by (simp add: retry_trace_def upt_conv_Cons)

lemma fetch_loop_last:
  assumes "int n = max_retries"
  shows "fetch_loop ep max_retries b n =
           ((case ep n of Json p \<Rightarrow> Inr (Some p) | _ \<Rightarrow> Inr None), [Get n])"
  using assms by (subst fetch_loop.simps) (simp split: response.splits)

lemma fetch_loop_failing_prefix:
  assumes b: "0 \<le> b" and n: "int n = max_retries"
  shows "a \<le> n \<Longrightarrow> (\<And>i. a \<le> i \<Longrightarrow> i < n \<Longrightarrow> ep i = RequestFailed) \<Longrightarrow>
         fetch_loop ep max_retries b a =
           ((case ep n of Json p \<Rightarrow> Inr (Some p) | _ \<Rightarrow> Inr None), retry_trace b a n)"
proof (induction "n - a" arbitrary: a)
  case 0
  then have "a = n" by simp
  then show ?case using fetch_loop_last[OF n] by (simp add: retry_trace_last)
next
  case (Suc k)
  then have lt: "a < n" by simp
  then have f: "ep a = RequestFailed" using Suc.prems(2) by simp
  have w: "\<not> b * 2 ^ a < 0" using b by (simp add: not_less)
  have rec: "fetch_loop ep max_retries b (Suc a) =
      ((case ep n of Json p \<Rightarrow> Inr (Some p) | _ \<Rightarrow> Inr None), retry_trace b (Suc a) n)"
  proof (rule Suc.hyps(1))
    show "k = n - Suc a" using Suc.hyps(2) by simp
    show "Suc a \<le> n" using lt by simp
    show "\<And>i. Suc a \<le> i \<Longrightarrow> i < n \<Longrightarrow> ep i = RequestFailed"
      using Suc.prems(2) by simp
  qed
  have "fetch_loop ep max_retries b a =
      (case fetch_loop ep max_retries b (a + 1) of
         (res, trace) \<Rightarrow> (res, Get a # Sleep (b * 2 ^ a) # trace))"
    using lt n f w by (subst fetch_loop.simps) (simp add: Let_def)
  then show ?case using rec lt by (simp add: retry_trace_step)
qed

lemma count_gets_retry_trace: "a \<le> n \<Longrightarrow> count_gets (retry_trace b a n) = n - a + 1"
proof (induction "n - a" arbitrary: a)
  case 0
  then show ?case by (simp add: retry_trace_def count_gets_def)
next
  case (Suc k)
  then have lt: "a < n" by simp
  have "count_gets (retry_trace b (Suc a) n) = n - Suc a + 1"
    by (rule Suc.hyps(1)) (use Suc.hyps(2) lt in simp_all)
  then show ?case using lt by (simp add: retry_trace_step[OF lt] count_gets_def)
qed

lemma sleeps_retry_trace: "a \<le> n \<Longrightarrow> sleeps (retry_trace b a n) = map (\<lambda>i. b * 2 ^ i) [a..<n]"
proof (induction "n - a" arbitrary: a)
  case 0
  then show ?case by (simp add: retry_trace_def sleeps_def)
next
  case (Suc k)
  then have lt: "a < n" by simp
  have "sleeps (retry_trace b (Suc a) n) = map (\<lambda>i. b * 2 ^ i) [Suc a..<n]"
    by (rule Suc.hyps(1)) (use Suc.hyps(2) lt in simp_all)
  then show ?case using lt by (simp add: retry_trace_step[OF lt] sleeps_def upt_conv_Cons)
qed

text \<open>
  Claim C3: with a retry count \<open>max_retries \<ge> 0\<close> and a backoff base
  \<open>backoff_factor \<ge> 0\<close>, \<^verbatim>\<open>fetch_with_retry\<close> against an endpoint that fails on every
  attempt returns \<^verbatim>\<open>None\<close> after exactly \<open>max_retries + 1\<close> GETs, having slept
  \<open>backoff_factor * 2 ^ attempt\<close> after each failed attempt but the last (the trace is
  GET 0, sleep, GET 1, sleep, ..., GET \<open>max_retries\<close>); against an endpoint that fails
  \<open>max_retries\<close> times and then answers with JSON it returns that payload, after the same
  trace.
\<close>

theorem fetch_with_retry_attempts:
  assumes "0 \<le> max_retries" and "0 \<le> backoff_factor"
  shows "((\<forall>a. endpoint a = RequestFailed) \<longrightarrow>
            fst (fetch_with_retry endpoint max_retries backoff_factor) = Inr None
          \<and> count_gets (snd (fetch_with_retry endpoint max_retries backoff_factor))
              = nat max_retries + 1
          \<and> sleeps (snd (fetch_with_retry endpoint max_retries backoff_factor))
              = map (\<lambda>attempt. backoff_factor * 2 ^ attempt) [0..<nat max_retries]
          \<and> snd (fetch_with_retry endpoint max_retries backoff_factor)
              = retry_trace backoff_factor 0 (nat max_retries))
       \<and> ((\<forall>a < nat max_retries. endpoint a = RequestFailed)
            \<and> endpoint (nat max_retries) = Json p \<longrightarrow>
            fetch_with_retry endpoint max_retries backoff_factor
              = (Inr (Some p), retry_trace backoff_factor 0 (nat max_retries)))"
proof -
  have n: "int (nat max_retries) = max_retries" using assms(1) by simp
  have gen: "(\<And>i. i < nat max_retries \<Longrightarrow> endpoint i = RequestFailed) \<Longrightarrow>
     fetch_with_retry endpoint max_retries backoff_factor =
       ((case endpoint (nat max_retries) of Json p \<Rightarrow> Inr (Some p) | _ \<Rightarrow> Inr None),
        retry_trace backoff_factor 0 (nat max_retries))"
    unfolding fetch_with_retry_def
    by (rule fetch_loop_failing_prefix[OF assms(2) n]) simp_all
  have a: "(\<forall>a. endpoint a = RequestFailed) \<longrightarrow>
            fetch_with_retry endpoint max_retries backoff_factor
              = (Inr None, retry_trace backoff_factor 0 (nat max_retries))"
    using gen by simp
  have s: "(\<forall>a < nat max_retries. endpoint a = RequestFailed)
            \<and> endpoint (nat max_retries) = Json p \<longrightarrow>
            fetch_with_retry endpoint max_retries backoff_factor
              = (Inr (Some p), retry_trace backoff_factor 0 (nat max_retries))"
    using gen by simp
  show ?thesis using a s
    by (simp add: count_gets_retry_trace sleeps_retry_trace)
qed

theorem fetch_with_retry_attempts_witness:
  "fetch_with_retry (\<lambda>a. RequestFailed :: nat response) 3 1
     = (Inr None, [Get 0, Sleep 1, Get 1, Sleep 2, Get 2, Sleep 4, Get 3])
   \<and> fetch_with_retry (\<lambda>a. if a < 3 then RequestFailed else Json (42::nat)) 3 1
     = (Inr (Some 42), [Get 0, Sleep 1, Get 1, Sleep 2, Get 2, Sleep 4, Get 3])"
proof -
  have t: "retry_trace 1 0 (nat 3) = [Get 0, Sleep 1, Get 1, Sleep 2, Get 2, Sleep 4, Get 3]"
    by (simp add: retry_trace_def upt_conv_Cons eval_nat_numeral)
  have x: "(0::int) \<le> 3" "(0::real) \<le> 1" by simp_all
  from fetch_with_retry_attempts[OF x, of "\<lambda>a. RequestFailed" "0::nat"]
       fetch_with_retry_attempts[OF x, of "\<lambda>a. if a < 3 then RequestFailed else Json (42::nat)" "42::nat"]
  show ?thesis unfolding t by (simp add: prod_eq_iff)
qed

subsection \<open>Bounds of a city record\<close>

lemma py_trunc_le: "0 \<le> x \<Longrightarrow> of_int (py_trunc x) \<le> x"
  by (simp add: py_trunc_def)

lemma py_trunc_ge: "of_int n \<le> x \<Longrightarrow> 0 \<le> x \<Longrightarrow> n \<le> py_trunc x"
  by (simp add: py_trunc_def le_floor_iff)

lemma py_trunc_gt: "0 \<le> x \<Longrightarrow> x - 1 < of_int (py_trunc x)"
  by (simp add: py_trunc_def)

lemma py_trunc_bound:
  assumes "0 \<le> x" and "k \<le> py_trunc x"
  shows "of_int k \<le> x"
proof -
  have "(of_int k :: real) \<le> of_int (py_trunc x)" using assms(2) by simp
  also have "\<dots> \<le> x" using assms(1) by (rule py_trunc_le)
  finally show ?thesis .
qed

lemma city_recovery_cases: "k_cases (city_recovery pop tc ds r0) = tc"
  by (simp add: city_recovery_def Let_def)

lemma city_recovery_deaths: "k_deaths (city_recovery pop tc ds r0) = ds"
  by (simp add: city_recovery_def Let_def)

lemma city_correction_cases:
  "k_cases (city_correction pop c0 d0 r0) = min (max c0 100) (py_trunc (of_int pop * 0.3))"
  by (simp add: city_correction_def Let_def city_recovery_cases)

lemma city_correction_deaths:
  "k_deaths (city_correction pop c0 d0 r0)
     = min d0 (py_trunc (of_int (k_cases (city_correction pop c0 d0 r0)) * 0.05))"
  by (simp add: city_correction_def Let_def city_recovery_cases city_recovery_deaths)








subsection \<open>The recovery correction\<close>

lemma city_correction_recovery:
  "city_correction pop c0 d0 r0
     = city_recovery pop (k_cases (city_correction pop c0 d0 r0))
         (k_deaths (city_correction pop c0 d0 r0)) r0"
  by (simp add: city_correction_def Let_def city_recovery_cases city_recovery_deaths)

lemma city_recovery_estimated:
  assumes "0 < tc" and "of_int r0 / of_int tc < (0.1::real)"
  shows "k_estimated (city_recovery pop tc ds r0)"
    and "k_estimation (city_recovery pop tc ds r0) = Some (k_recovered (city_recovery pop tc ds r0))"
  using assms by (simp_all add: city_recovery_def Let_def)

lemma city_recovery_kept:
  assumes "0 < tc" and "(0.1::real) \<le> of_int r0 / of_int tc"
  shows "\<not> k_estimated (city_recovery pop tc ds r0)"
    and "k_estimation (city_recovery pop tc ds r0) = None"
    and "k_recovered (city_recovery pop tc ds r0)
           = (if ds + r0 \<le> tc \<and> tc - ds - r0 \<le> py_trunc (of_int pop * 0.02) then r0
              else max 0 (tc - ds - k_active (city_recovery pop tc ds r0)))"
proof -
  from assms have ne: "\<not> of_int r0 / of_int tc < (0.1::real)" by simp
  show "\<not> k_estimated (city_recovery pop tc ds r0)"
    using assms(1) ne by (simp add: city_recovery_def Let_def)
  show "k_estimation (city_recovery pop tc ds r0) = None"
    using assms(1) ne by (simp add: city_recovery_def Let_def)
  show "k_recovered (city_recovery pop tc ds r0)
           = (if ds + r0 \<le> tc \<and> tc - ds - r0 \<le> py_trunc (of_int pop * 0.02) then r0
              else max 0 (tc - ds - k_active (city_recovery pop tc ds r0)))"
    using assms(1) ne by (auto simp add: city_recovery_def Let_def)
qed

lemma city_recovery_estimate_bound:
  assumes tc: "0 < tc" and rate: "of_int r0 / of_int tc < (0.1::real)"
    and ds0: "0 \<le> ds" and ds: "of_int ds \<le> 0.05 * (of_int tc :: real)"
    and cap: "0.05 * (of_int tc :: real) \<le> of_int (py_trunc (of_int pop * 0.02))"
  shows "of_int (k_recovered (city_recovery pop tc ds r0)) \<le> 0.95 * (of_int tc :: real)"
proof -
  let ?e = "min (py_trunc (of_int (tc - ds) * 0.96)) (py_trunc (of_int tc * 0.95))"
  let ?cap = "py_trunc (of_int pop * 0.02)"
  have le_tc: "ds \<le> tc"
  proof -
    have "(of_int ds :: real) \<le> of_int tc" using ds tc by simp
    then show ?thesis by simp
  qed
  have e95: "(of_int ?e :: real) \<le> 0.95 * of_int tc"
  proof -
    have nn: "(0::real) \<le> of_int tc * 0.95" using tc by simp
    have "?e \<le> py_trunc (of_int tc * 0.95)" by simp
    from py_trunc_bound[OF nn this] show ?thesis by simp
  qed
  have e96: "?e \<le> tc - ds"
  proof -
    have nn: "(0::real) \<le> of_int (tc - ds) * 0.96" using le_tc by simp
    from py_trunc_le[OF nn]
    have "(of_int (py_trunc (of_int (tc - ds) * 0.96)) :: real) \<le> of_int (tc - ds) * 0.96" .
    also have "\<dots> \<le> (of_int (tc - ds) :: real)" using le_tc by simp
    finally have "py_trunc (of_int (tc - ds) * 0.96) \<le> tc - ds" by (simp only: of_int_le_iff)
    then show ?thesis by simp
  qed
  have noex: "\<not> ds + ?e > tc" using e96 by linarith
  have r: "k_recovered (city_recovery pop tc ds r0)
             = (if max 0 (tc - ds - ?e) > ?cap then max 0 (tc - ds - ?cap) else ?e)"
    using tc rate noex by (simp add: city_recovery_def Let_def)
  have c: "(of_int (max 0 (tc - ds - ?cap)) :: real) \<le> 0.95 * of_int tc"
  proof (cases "0 \<le> tc - ds - ?cap")
    case True
    then have "(of_int (max 0 (tc - ds - ?cap)) :: real) = of_int tc - of_int ds - of_int ?cap"
      by simp
    also have "\<dots> \<le> 0.95 * of_int tc" using cap ds0 by simp
    finally show ?thesis .
  next
    case False
    then have "max 0 (tc - ds - ?cap) = 0" by simp
    then show ?thesis using tc by simp
  qed
  show ?thesis unfolding r using c e95 by simp
qed

lemma city_correction_estimate_bound:
  assumes pop: "200 \<le> pop" and d0: "0 \<le> d0"
    and rate: "of_int r0 / of_int (k_cases (city_correction pop c0 d0 r0)) < (0.1::real)"
  shows "of_int (k_recovered (city_correction pop c0 d0 r0))
           \<le> 0.95 * (of_int (k_cases (city_correction pop c0 d0 r0)) :: real)"
proof -
  let ?tc = "k_cases (city_correction pop c0 d0 r0)"
  let ?ds = "k_deaths (city_correction pop c0 d0 r0)"
  have nn3: "(0::real) \<le> of_int pop * 0.3" using pop by simp
  have "(of_int (60::int) :: real) \<le> of_int pop * 0.3" using pop by simp
  then have "60 \<le> py_trunc (of_int pop * 0.3)" using nn3 by (rule py_trunc_ge)
  then have tc60: "60 \<le> ?tc" by (simp add: city_correction_cases)
  then have tc: "0 < ?tc" by simp
  have tcle: "(of_int ?tc :: real) \<le> of_int pop * 0.3"
  proof -
    have "?tc \<le> py_trunc (of_int pop * 0.3)" by (simp add: city_correction_cases)
    from py_trunc_bound[OF nn3 this] show ?thesis .
  qed
  have nn5: "(0::real) \<le> of_int ?tc * 0.05" using tc by simp
  have ds0: "0 \<le> ?ds"
  proof -
    have "(of_int (0::int) :: real) \<le> of_int ?tc * 0.05" using tc by simp
    then have "0 \<le> py_trunc (of_int ?tc * 0.05)" using nn5 by (rule py_trunc_ge)
    then show ?thesis using d0 by (subst city_correction_deaths) simp
  qed
  have ds: "(of_int ?ds :: real) \<le> 0.05 * of_int ?tc"
  proof -
    have "?ds \<le> py_trunc (of_int ?tc * 0.05)" by (subst city_correction_deaths) simp
    from py_trunc_bound[OF nn5 this] show ?thesis by simp
  qed
  have nn2: "(0::real) \<le> of_int pop * 0.02" using pop by simp
  have cap: "0.05 * (of_int ?tc :: real) \<le> of_int (py_trunc (of_int pop * 0.02))"
  proof -
    have "0.05 * (of_int ?tc :: real) \<le> 0.015 * of_int pop" using tcle by simp
    also have "\<dots> \<le> of_int pop * 0.02 - 1" using pop by simp
    also have "\<dots> < of_int (py_trunc (of_int pop * 0.02))" by (rule py_trunc_gt[OF nn2])
    finally show ?thesis by simp
  qed
  have "of_int (k_recovered (city_recovery pop ?tc ?ds r0)) \<le> 0.95 * (of_int ?tc :: real)"
    by (rule city_recovery_estimate_bound[OF tc rate ds0 ds cap])
  then show ?thesis using city_correction_recovery[of pop c0 d0 r0] by simp
qed

lemma region_correction_estimated:
  assumes "0 < n" and "of_int r0 / of_int n < (0.1::real)"
  shows "k_estimated (region_correction n ds r0 a0)"
    and "k_estimation (region_correction n ds r0 a0) = Some (k_recovered (region_correction n ds r0 a0))"
    and "of_int (k_recovered (region_correction n ds r0 a0)) \<le> 0.95 * (of_int n :: real)"
proof -
  show "k_estimated (region_correction n ds r0 a0)"
    using assms by (simp add: region_correction_def Let_def)
  show "k_estimation (region_correction n ds r0 a0) = Some (k_recovered (region_correction n ds r0 a0))"
    using assms by (simp add: region_correction_def Let_def)
  let ?e = "max (min (py_trunc (of_int (n - ds) * 0.96)) (py_trunc (of_int n * 0.95))) 0"
  have r: "k_recovered (region_correction n ds r0 a0) = ?e"
    using assms by (simp add: region_correction_def Let_def)
  have nn: "(0::real) \<le> of_int n * 0.95" using assms(1) by simp
  have "0 \<le> py_trunc (of_int n * 0.95)" using nn by (rule py_trunc_nonneg)
  then have "?e \<le> py_trunc (of_int n * 0.95)" by simp
  from py_trunc_bound[OF nn this]
  show "of_int (k_recovered (region_correction n ds r0 a0)) \<le> 0.95 * (of_int n :: real)"
    unfolding r by simp
qed

lemma region_correction_kept:
  assumes "\<not> (0 < n \<and> of_int r0 / of_int n < (0.1::real))"
  shows "\<not> k_estimated (region_correction n ds r0 a0)"
    and "k_estimation (region_correction n ds r0 a0) = None"
    and "k_recovered (region_correction n ds r0 a0) = r0"
  using assms by (auto simp add: region_correction_def Let_def)

text \<open>
  Claim C2, as stated: a record that enters the recovery correction with
  \<open>recovered / cases \<ge> 0.1\<close> keeps its recovered count and has \<open>estimated = false\<close>.
  On the city path the count is not kept. Toronto (population 2731571) with a country
  object of population 38000000, 4000000 cases, 50000 deaths and 3000000 recovered is
  allocated the ratio 0.2, so it reaches line 362 with 800000 cases, 10000 deaths and
  600000 recovered. The floor, the caps (819471 and 40000) and the correction
  (600000 / 800000 = 0.75) leave these as they are, but the active count 190000 exceeds
  \<^verbatim>\<open>int(2731571 * 0.02)\<close> = 54631, so lines 405-409 set \<^verbatim>\<open>active\<close> to 54631 and
  \<^verbatim>\<open>recovered\<close> to 800000 - 10000 - 54631 = 735369, with \<open>estimated\<close> still false.
  The code means it (line 408, "Adjust recovered to make the math work", and the
  estimation is updated only "if we had to adjust" an estimate).
\<close>

theorem recovered_not_kept_counterexample:
  "k_cases (city_correction 2731571 800000 10000 600000) = 800000
   \<and> k_deaths (city_correction 2731571 800000 10000 600000) = 10000
   \<and> (0.1::real) \<le> 600000 / 800000
   \<and> \<not> k_estimated (city_correction 2731571 800000 10000 600000)
   \<and> k_estimation (city_correction 2731571 800000 10000 600000) = None
   \<and> k_active (city_correction 2731571 800000 10000 600000) = 54631
   \<and> k_recovered (city_correction 2731571 800000 10000 600000) = 735369
   \<and> 735369 \<noteq> (600000::int)"
proof -
  have c: "city_correction 2731571 800000 10000 600000
             = city_recovery 2731571 800000 10000 600000"
    by (simp add: city_correction_def Let_def py_trunc_def)
  have 1: "k_cases (city_recovery 2731571 800000 10000 600000) = 800000"
    by (simp add: city_recovery_cases)
  have 2: "k_deaths (city_recovery 2731571 800000 10000 600000) = 10000"
    by (simp add: city_recovery_deaths)
  have 3: "\<not> k_estimated (city_recovery 2731571 800000 10000 600000)"
    by (simp add: city_recovery_def Let_def)
  have 4: "k_estimation (city_recovery 2731571 800000 10000 600000) = None"
    by (simp add: city_recovery_def Let_def py_trunc_def)
  have 5: "k_active (city_recovery 2731571 800000 10000 600000) = 54631"
    by (simp add: city_recovery_def Let_def py_trunc_def)
  have 6: "k_recovered (city_recovery 2731571 800000 10000 600000) = 735369"
    by (simp add: city_recovery_def Let_def py_trunc_def)
  show ?thesis unfolding c 1 2 5 6 using 3 4 by simp
qed

text \<open>
  Claim C2, amended. On the state and country path (\<open>region_correction\<close>): a record with
  \<open>cases > 0\<close> and \<open>recovered / cases < 0.1\<close> gets \<open>estimated = true\<close>, an estimation
  equal to its final recovered count, and that count is at most 0.95 times the cases; any
  other record keeps its recovered count, with \<open>estimated = false\<close> and no estimation.
  On the city path (\<open>city_correction\<close>, with the cases as bounded by lines 362-363): a
  record with \<open>cases > 0\<close> and \<open>recovered / cases < 0.1\<close> gets \<open>estimated = true\<close> and an
  estimation equal to its final recovered count, which is at most 0.95 times the cases
  when the allocated deaths are not negative and the city has at least 200 inhabitants; a
  record with \<open>recovered / cases \<ge> 0.1\<close> gets \<open>estimated = false\<close> and no estimation, and
  keeps its recovered count if \<open>deaths + recovered \<le> cases\<close> and
  \<open>cases - deaths - recovered \<le> int(population * 0.02)\<close>; otherwise its recovered count
  becomes \<open>max 0 (cases - deaths - active)\<close>.
\<close>

theorem recovery_correction:
  "(0 < n \<and> of_int r0 / of_int n < (0.1::real) \<longrightarrow>
      k_estimated (region_correction n ds r0 a0)
    \<and> k_estimation (region_correction n ds r0 a0) = Some (k_recovered (region_correction n ds r0 a0))
    \<and> of_int (k_recovered (region_correction n ds r0 a0)) \<le> 0.95 * (of_int n :: real))
 \<and> (\<not> (0 < n \<and> of_int r0 / of_int n < (0.1::real)) \<longrightarrow>
      \<not> k_estimated (region_correction n ds r0 a0)
    \<and> k_estimation (region_correction n ds r0 a0) = None
    \<and> k_recovered (region_correction n ds r0 a0) = r0)
 \<and> (0 < k_cases (city_correction pop c0 d0 q0)
      \<and> of_int q0 / of_int (k_cases (city_correction pop c0 d0 q0)) < (0.1::real) \<longrightarrow>
      k_estimated (city_correction pop c0 d0 q0)
    \<and> k_estimation (city_correction pop c0 d0 q0) = Some (k_recovered (city_correction pop c0 d0 q0))
    \<and> (0 \<le> d0 \<and> 200 \<le> pop \<longrightarrow>
         of_int (k_recovered (city_correction pop c0 d0 q0))
           \<le> 0.95 * (of_int (k_cases (city_correction pop c0 d0 q0)) :: real)))
 \<and> (0 < k_cases (city_correction pop c0 d0 q0)
      \<and> (0.1::real) \<le> of_int q0 / of_int (k_cases (city_correction pop c0 d0 q0)) \<longrightarrow>
      \<not> k_estimated (city_correction pop c0 d0 q0)
    \<and> k_estimation (city_correction pop c0 d0 q0) = None
    \<and> k_recovered (city_correction pop c0 d0 q0)
        = (if k_deaths (city_correction pop c0 d0 q0) + q0 \<le> k_cases (city_correction pop c0 d0 q0)
              \<and> k_cases (city_correction pop c0 d0 q0) - k_deaths (city_correction pop c0 d0 q0) - q0
                  \<le> py_trunc (of_int pop * 0.02)
           then q0
           else max 0 (k_cases (city_correction pop c0 d0 q0)
                        - k_deaths (city_correction pop c0 d0 q0)
                        - k_active (city_correction pop c0 d0 q0))))"
proof -
  let ?K = "city_correction pop c0 d0 q0"
  have a: "0 < n \<and> of_int r0 / of_int n < (0.1::real) \<longrightarrow>
      k_estimated (region_correction n ds r0 a0)
    \<and> k_estimation (region_correction n ds r0 a0) = Some (k_recovered (region_correction n ds r0 a0))
    \<and> of_int (k_recovered (region_correction n ds r0 a0)) \<le> 0.95 * (of_int n :: real)"
    using region_correction_estimated by blast
  have b: "\<not> (0 < n \<and> of_int r0 / of_int n < (0.1::real)) \<longrightarrow>
      \<not> k_estimated (region_correction n ds r0 a0)
    \<and> k_estimation (region_correction n ds r0 a0) = None
    \<and> k_recovered (region_correction n ds r0 a0) = r0"
    using region_correction_kept by blast
  have c: "0 < k_cases ?K \<and> of_int q0 / of_int (k_cases ?K) < (0.1::real) \<longrightarrow>
      k_estimated ?K \<and> k_estimation ?K = Some (k_recovered ?K)
    \<and> (0 \<le> d0 \<and> 200 \<le> pop \<longrightarrow>
         of_int (k_recovered ?K) \<le> 0.95 * (of_int (k_cases ?K) :: real))"
  proof (intro impI, elim conjE)
    assume tc: "0 < k_cases ?K" and rate: "of_int q0 / of_int (k_cases ?K) < (0.1::real)"
    have "k_estimated (city_recovery pop (k_cases ?K) (k_deaths ?K) q0)"
      by (rule city_recovery_estimated(1)[OF tc rate])
    then have 1: "k_estimated ?K" using city_correction_recovery[of pop c0 d0 q0] by simp
    have "k_estimation (city_recovery pop (k_cases ?K) (k_deaths ?K) q0)
            = Some (k_recovered (city_recovery pop (k_cases ?K) (k_deaths ?K) q0))"
      by (rule city_recovery_estimated(2)[OF tc rate])
    then have 2: "k_estimation ?K = Some (k_recovered ?K)"
      using city_correction_recovery[of pop c0 d0 q0] by simp
    have 3: "0 \<le> d0 \<and> 200 \<le> pop \<longrightarrow>
         of_int (k_recovered ?K) \<le> 0.95 * (of_int (k_cases ?K) :: real)"
      using city_correction_estimate_bound[OF _ _ rate] by blast
    from 1 2 3 show "k_estimated ?K \<and> k_estimation ?K = Some (k_recovered ?K)
      \<and> (0 \<le> d0 \<and> 200 \<le> pop \<longrightarrow>
         of_int (k_recovered ?K) \<le> 0.95 * (of_int (k_cases ?K) :: real))" by blast
  qed
  have d: "0 < k_cases ?K \<and> (0.1::real) \<le> of_int q0 / of_int (k_cases ?K) \<longrightarrow>
      \<not> k_estimated ?K \<and> k_estimation ?K = None
    \<and> k_recovered ?K
        = (if k_deaths ?K + q0 \<le> k_cases ?K
              \<and> k_cases ?K - k_deaths ?K - q0 \<le> py_trunc (of_int pop * 0.02)
           then q0
           else max 0 (k_cases ?K - k_deaths ?K - k_active ?K))"
  proof (intro impI, elim conjE)
    assume tc: "0 < k_cases ?K" and rate: "(0.1::real) \<le> of_int q0 / of_int (k_cases ?K)"
    note k = city_recovery_kept[OF tc rate, of pop "k_deaths ?K"]
    show "\<not> k_estimated ?K \<and> k_estimation ?K = None
    \<and> k_recovered ?K
        = (if k_deaths ?K + q0 \<le> k_cases ?K
              \<and> k_cases ?K - k_deaths ?K - q0 \<le> py_trunc (of_int pop * 0.02)
           then q0
           else max 0 (k_cases ?K - k_deaths ?K - k_active ?K))"
      using k city_correction_recovery[of pop c0 d0 q0] by simp
  qed
  from a b c d show ?thesis by blast
qed

theorem recovery_correction_witness:
  "k_cases (city_correction 8336817 505261 10105 25263) = 505261
   \<and> k_estimated (city_correction 8336817 505261 10105 25263)
   \<and> k_estimation (city_correction 8336817 505261 10105 25263) = Some 475349
   \<and> k_recovered (city_correction 8336817 505261 10105 25263) = 475349
   \<and> (475349::real) \<le> 0.95 * 505261
   \<and> k_estimated (region_correction 10000000 200000 500000 9300000)
   \<and> k_estimation (region_correction 10000000 200000 500000 9300000) = Some 9408000
   \<and> k_recovered (region_correction 10000000 200000 500000 9300000) = 9408000"
proof -
  have cc: "city_correction 8336817 505261 10105 25263
             = city_recovery 8336817 505261 10105 25263"
    by (simp add: city_correction_def Let_def py_trunc_def)
  have c: "k_cases (city_correction 8336817 505261 10105 25263) = 505261"
    by (simp add: cc city_recovery_cases)
  have "k_recovered (city_recovery 8336817 505261 10105 25263) = 475349"
    by (simp add: city_recovery_def Let_def py_trunc_def)
  then have r: "k_recovered (city_correction 8336817 505261 10105 25263) = 475349"
    by (simp add: cc)
  have rr: "k_recovered (region_correction 10000000 200000 500000 9300000) = 9408000"
    by (simp add: region_correction_def Let_def py_trunc_def)
  from recovery_correction[of 10000000 500000 200000 9300000 8336817 505261 10105 25263]
  show ?thesis unfolding c r rr by simp
qed

subsection \<open>The cache\<close>

lemma path_join_inject: "path_join dir a = path_join dir b \<longleftrightarrow> a = b"
  by (simp add: path_join_def)

lemma paths_differ: "get_cache_file_path c key \<noteq> get_metadata_file_path c key"
  by (simp add: get_cache_file_path_def get_metadata_file_path_def path_join_inject)

lemma cache_set_memory:
  "memory_cache (snd (cache_set env c key v now)) key
     = Some \<lparr> ce_data = Some v, ce_timestamp = Iso now \<rparr>"
  by (simp add: cache_set_def Let_def)

lemma cache_set_fields:
  "max_age_hours (snd (cache_set env c key v now)) = max_age_hours c"
  "cache_dir (snd (cache_set env c key v now)) = cache_dir c"
  by (simp_all add: cache_set_def Let_def)

lemma cache_set_paths:
  "get_cache_file_path (snd (cache_set env c key v now)) k = get_cache_file_path c k"
  "get_metadata_file_path (snd (cache_set env c key v now)) k = get_metadata_file_path c k"
  by (simp_all add: get_cache_file_path_def get_metadata_file_path_def cache_set_fields)

lemma cache_set_result:
  "fst (cache_set env c key v now) \<longleftrightarrow>
     \<not> open_fails env (get_cache_file_path c key) \<and> \<not> dump_fails env v
     \<and> \<not> open_fails env (get_metadata_file_path c key)"
  by (simp add: cache_set_def Let_def)

lemma cache_set_files:
  assumes "fst (cache_set env c key v now)"
  shows "files (snd (cache_set env c key v now)) (get_cache_file_path c key)
           = Some (Object \<lparr> ce_data = Some (reload env v), ce_timestamp = Iso now \<rparr>)"
    and "files (snd (cache_set env c key v now)) (get_metadata_file_path c key)
           = Some (Object \<lparr> ce_data = None, ce_timestamp = Iso now \<rparr>)"
  using assms paths_differ[of c key] by (simp_all add: cache_set_def Let_def split: if_splits)

lemma is_cache_valid_set:
  "is_cache_valid (snd (cache_set env c key v now)) ts t = is_cache_valid c ts t"
  by (simp add: is_cache_valid_def cache_set_fields split: timestamp.splits)

lemma cache_get_memory_hit:
  assumes "memory_cache c key = Some \<lparr> ce_data = Some v, ce_timestamp = ts \<rparr>"
    and "is_cache_valid c ts now_memory"
  shows "cache_get env c key use_file now_memory now_file = (Inr (Some v), c)"
  using assms by (simp add: cache_get_def Let_def)

lemma cache_get_after_set:
  assumes "now_memory - now < max_age_hours c * 3600 * 1000000"
  shows "cache_get env (snd (cache_set env c key v now)) key use_file now_memory now_file
           = (Inr (Some v), snd (cache_set env c key v now))"
proof (rule cache_get_memory_hit)
  show "memory_cache (snd (cache_set env c key v now)) key
          = Some \<lparr> ce_data = Some v, ce_timestamp = Iso now \<rparr>"
    by (rule cache_set_memory)
  show "is_cache_valid (snd (cache_set env c key v now)) (Iso now) now_memory"
    using assms by (simp add: is_cache_valid_def cache_set_fields)
qed

text \<open>
  Claim C4: \<^verbatim>\<open>set(k, v)\<close> at time \<open>now\<close> followed by \<^verbatim>\<open>get(k)\<close> at a time when the age
  of the entry is below \<^verbatim>\<open>max_age_hours\<close> returns \<open>v\<close> and leaves the cache as
  \<^verbatim>\<open>set\<close> left it; this holds for every key, every payload, with or without the file
  fallback, and whether or not the files could be written.
\<close>

theorem cache_round_trip:
  assumes "now_memory - now < max_age_hours c * 3600 * 1000000"
  shows "fst (cache_get env (snd (cache_set env c key v now)) key use_file now_memory now_file)
           = Inr (Some v)
       \<and> snd (cache_get env (snd (cache_set env c key v now)) key use_file now_memory now_file)
           = snd (cache_set env c key v now)"
  using cache_get_after_set[OF assms] by simp

theorem cache_round_trip_witness:
  "(1000000::int) - 0 < max_age_hours empty_cache * 3600 * 1000000
   \<and> fst (cache_get reliable_env (snd (cache_set reliable_env empty_cache ''cities_data'' True 0))
            ''cities_data'' True 1000000 1000000) = Inr (Some True)"
proof -
  have a: "(1000000::int) - 0 < max_age_hours empty_cache * 3600 * 1000000"
    by (simp add: empty_cache_def)
  from cache_round_trip[OF a, of reliable_env "''cities_data''" True True 1000000] a
  show ?thesis by simp
qed

text \<open>
  Claim C7: when a file write of \<^verbatim>\<open>set(key, payload)\<close> fails (the data file or the
  metadata file cannot be opened, or the dump of the payload raises), \<^verbatim>\<open>set\<close> returns
  \<^verbatim>\<open>False\<close>, the memory tier holds the payload with the time of the call all the same,
  and a \<^verbatim>\<open>get(key)\<close> while the age is below \<^verbatim>\<open>max_age_hours\<close> returns the payload.
\<close>

theorem failed_write_keeps_memory:
  assumes "open_fails env (get_cache_file_path c key) \<or> dump_fails env v
           \<or> open_fails env (get_metadata_file_path c key)"
    and "now_memory - now < max_age_hours c * 3600 * 1000000"
  shows "fst (cache_set env c key v now) = False
       \<and> memory_cache (snd (cache_set env c key v now)) key
           = Some \<lparr> ce_data = Some v, ce_timestamp = Iso now \<rparr>
       \<and> fst (cache_get env (snd (cache_set env c key v now)) key use_file now_memory now_file)
           = Inr (Some v)"
  using assms(1) cache_get_after_set[OF assms(2)]
  by (simp add: cache_set_result cache_set_memory)

theorem failed_write_keeps_memory_witness:
  "open_fails readonly_env (get_cache_file_path empty_cache ''cities_data'')
   \<and> fst (cache_set readonly_env empty_cache ''cities_data'' True 0) = False
   \<and> fst (cache_get readonly_env (snd (cache_set readonly_env empty_cache ''cities_data'' True 0))
            ''cities_data'' True 1000000 1000000) = Inr (Some True)"
proof -
  have o: "open_fails readonly_env (get_cache_file_path empty_cache ''cities_data'')"
    by (simp add: readonly_env_def)
  have a: "(1000000::int) - 0 < max_age_hours empty_cache * 3600 * 1000000"
    by (simp add: empty_cache_def)
  from failed_write_keeps_memory[OF disjI1[OF o] a, of True True 1000000] o
  show ?thesis by simp
qed

lemma cache_get_expired:
  assumes m: "memory_cache c key = Some \<lparr> ce_data = Some v, ce_timestamp = Iso t \<rparr>"
    and f: "files c (get_cache_file_path c key) = Some (Object \<lparr> ce_data = d, ce_timestamp = Iso t \<rparr>)"
    and e1: "max_age_hours c * 3600 * 1000000 \<le> now_memory - t"
    and e2: "max_age_hours c * 3600 * 1000000 \<le> now_file - t"
    and r1: "\<not> remove_fails env (get_cache_file_path c key)"
    and r2: "\<not> remove_fails env (get_metadata_file_path c key)"
  shows "fst (cache_get env c key True now_memory now_file) = Inr None"
    and "memory_cache (snd (cache_get env c key True now_memory now_file)) key = None"
    and "files (snd (cache_get env c key True now_memory now_file)) (get_cache_file_path c key) = None"
    and "files (snd (cache_get env c key True now_memory now_file)) (get_metadata_file_path c key) = None"
proof -
  let ?c1 = "c\<lparr> memory_cache := (memory_cache c)(key := None) \<rparr>"
  have p: "get_cache_file_path ?c1 key = get_cache_file_path c key"
    "get_metadata_file_path ?c1 key = get_metadata_file_path c key"
    by (simp_all add: get_cache_file_path_def get_metadata_file_path_def)
  have nv1: "\<not> is_cache_valid c (Iso t) now_memory" using e1 by (simp add: is_cache_valid_def)
  have nv2: "\<not> is_cache_valid ?c1 (Iso t) now_file" using e2 by (simp add: is_cache_valid_def)
  have g: "cache_get env c key True now_memory now_file
             = (case file_fallback env ?c1 key now_file of (res, c2) \<Rightarrow> (Inr res, c2))"
    using m nv1 by (simp add: cache_get_def Let_def)
  let ?c2 = "?c1\<lparr> files := (files ?c1)(get_cache_file_path c key := None) \<rparr>"
  have ff: "file_fallback env ?c1 key now_file
              = (None, if files ?c2 (get_metadata_file_path c key) = None then ?c2
                       else ?c2\<lparr> files := (files ?c2)(get_metadata_file_path c key := None) \<rparr>)"
    using f nv2 r1 r2 unfolding file_fallback_def p by (simp add: Let_def)
  show "fst (cache_get env c key True now_memory now_file) = Inr None"
    by (simp add: g ff)
  show "memory_cache (snd (cache_get env c key True now_memory now_file)) key = None"
    by (simp add: g ff)
  show "files (snd (cache_get env c key True now_memory now_file)) (get_cache_file_path c key) = None"
    using paths_differ[of c key] by (simp add: g ff)
  show "files (snd (cache_get env c key True now_memory now_file)) (get_metadata_file_path c key) = None"
    by (simp add: g ff)
qed

text \<open>
  Claim C5: after a \<^verbatim>\<open>set(key, v)\<close> at time \<open>T\<close> that wrote both files, a \<^verbatim>\<open>get(key)\<close>
  with the file fallback at a time when the age of the entry has reached
  \<^verbatim>\<open>max_age_hours\<close> (at both clock readings) returns a miss, drops the entry from the
  memory tier and, if the two removals do not fail, leaves neither the data file nor the
  metadata file of the key.
\<close>

theorem cache_expiry:
  assumes "fst (cache_set env c key v T)"
    and "max_age_hours c * 3600 * 1000000 \<le> now_memory - T"
    and "max_age_hours c * 3600 * 1000000 \<le> now_file - T"
    and "\<not> remove_fails env (get_cache_file_path c key)"
    and "\<not> remove_fails env (get_metadata_file_path c key)"
  shows "fst (cache_get env (snd (cache_set env c key v T)) key True now_memory now_file) = Inr None
       \<and> memory_cache
           (snd (cache_get env (snd (cache_set env c key v T)) key True now_memory now_file)) key
           = None
       \<and> files (snd (cache_get env (snd (cache_set env c key v T)) key True now_memory now_file))
           (get_cache_file_path c key) = None
       \<and> files (snd (cache_get env (snd (cache_set env c key v T)) key True now_memory now_file))
           (get_metadata_file_path c key) = None"
proof -
  let ?s = "snd (cache_set env c key v T)"
  have m: "memory_cache ?s key = Some \<lparr> ce_data = Some v, ce_timestamp = Iso T \<rparr>"
    by (rule cache_set_memory)
  have f: "files ?s (get_cache_file_path ?s key)
             = Some (Object \<lparr> ce_data = Some (reload env v), ce_timestamp = Iso T \<rparr>)"
    using cache_set_files(1)[OF assms(1)] by (simp add: cache_set_paths)
  have e1: "max_age_hours ?s * 3600 * 1000000 \<le> now_memory - T"
    using assms(2) by (simp add: cache_set_fields)
  have e2: "max_age_hours ?s * 3600 * 1000000 \<le> now_file - T"
    using assms(3) by (simp add: cache_set_fields)
  have r1: "\<not> remove_fails env (get_cache_file_path ?s key)"
    using assms(4) by (simp add: cache_set_paths)
  have r2: "\<not> remove_fails env (get_metadata_file_path ?s key)"
    using assms(5) by (simp add: cache_set_paths)
  note x = cache_get_expired[OF m f e1 e2 r1 r2]
  from x(1) x(2) x(3) x(4) show ?thesis by (simp add: cache_set_paths)
qed

theorem cache_expiry_witness:
  "fst (cache_set reliable_env empty_cache ''cities_data'' True 0)
   \<and> max_age_hours empty_cache * 3600 * 1000000 \<le> 86400000001 - 0
   \<and> fst (cache_get reliable_env (snd (cache_set reliable_env empty_cache ''cities_data'' True 0))
            ''cities_data'' True 86400000001 86400000001) = Inr None
   \<and> files (snd (cache_get reliable_env
                    (snd (cache_set reliable_env empty_cache ''cities_data'' True 0))
                    ''cities_data'' True 86400000001 86400000001))
        ''cache/cities_data.json'' = None
   \<and> files (snd (cache_get reliable_env
                    (snd (cache_set reliable_env empty_cache ''cities_data'' True 0))
                    ''cities_data'' True 86400000001 86400000001))
        ''cache/cities_data_meta.json'' = None"
proof -
  have s: "fst (cache_set reliable_env empty_cache ''cities_data'' True 0)"
    by (simp add: cache_set_result reliable_env_def)
  have a: "max_age_hours empty_cache * 3600 * 1000000 \<le> 86400000001 - 0"
    by (simp add: empty_cache_def)
  have r: "\<not> remove_fails reliable_env (get_cache_file_path empty_cache ''cities_data'')"
    "\<not> remove_fails reliable_env (get_metadata_file_path empty_cache ''cities_data'')"
    by (simp_all add: reliable_env_def)
  have p: "get_cache_file_path empty_cache ''cities_data'' = ''cache/cities_data.json''"
    "get_metadata_file_path empty_cache ''cities_data'' = ''cache/cities_data_meta.json''"
    by (simp_all add: get_cache_file_path_def get_metadata_file_path_def path_join_def
          safe_key_def empty_cache_def)
  from cache_expiry[OF s a a r] s a show ?thesis unfolding p by simp
qed


end
